theory Spec2Isabelle
  imports Complex_Main
begin

section \<open>Problem 4: three ways to sum to n\<close>

text \<open>
  The three TypeScript functions take a \<open>number\<close>. The file states the assumption that
  every result stays below \<open>Number.MAX_SAFE_INTEGER\<close>, so on integer arguments the
  floating-point operations are exact and the functions are modelled over \<open>int\<close>.

  \<open>sum_to_n_a\<close> returns 0 for \<open>n \<le> 0\<close> and otherwise runs
  \<^verbatim>\<open>for (let i = 1; i <= n; i++) sum += i\<close>; the loop is \<open>sum_to_n_a_loop\<close>, whose
  arguments are the loop variables \<open>i\<close> and \<open>sum\<close> (written \<open>acc\<close>).
\<close>

function sum_to_n_a_loop :: "int \<Rightarrow> int \<Rightarrow> int \<Rightarrow> int" where
  "sum_to_n_a_loop n i acc = (if i \<le> n then sum_to_n_a_loop n (i + 1) (acc + i) else acc)"
  by pat_completeness auto
termination
  by (relation "measure (\<lambda>(n, i, acc). nat (n + 1 - i))") auto

definition sum_to_n_a :: "int \<Rightarrow> int" where
  "sum_to_n_a n = (if n \<le> 0 then 0 else sum_to_n_a_loop n 1 0)"

text \<open>
  \<open>sum_to_n_b\<close> recurses on \<open>n - 1\<close>, with the two base cases of the source. The call
  stack is taken to be as deep as the argument needs.
\<close>

function sum_to_n_b :: "int \<Rightarrow> int" where
  "sum_to_n_b n = (if n \<le> 0 then 0 else if n = 1 then 1 else n + sum_to_n_b (n - 1))"
  by pat_completeness auto
termination
  by (relation "measure nat") auto

text \<open>
  \<open>sum_to_n_c\<close> is the closed formula. The source divides with \<open>/\<close>, which is exact
  here because \<open>n * (n + 1)\<close> is even; the model uses integer division, and the theorem
  below states the result through \<open>2 * sum_to_n_c n\<close>, which does not depend on rounding.
\<close>

definition sum_to_n_c :: "int \<Rightarrow> int" where
  "sum_to_n_c n = (if n \<le> 0 then 0 else (n * (n + 1)) div 2)"

declare sum_to_n_a_loop.simps [simp del]
declare sum_to_n_b.simps [simp del]

lemma sum_to_n_a_loop_closed:
  "i \<le> n + 1 \<Longrightarrow> 2 * sum_to_n_a_loop n i acc = 2 * acc + n * (n + 1) - i * (i - 1)"
proof (induction n i acc rule: sum_to_n_a_loop.induct)
  case (1 n i acc)
  show ?case
  proof (cases "i \<le> n")
    case True
    then have "2 * sum_to_n_a_loop n (i + 1) (acc + i)
        = 2 * (acc + i) + n * (n + 1) - (i + 1) * (i + 1 - 1)"
      using "1.IH" by simp
    then show ?thesis
      using True by (subst sum_to_n_a_loop.simps) (simp add: algebra_simps)
  next
    case False
    with "1.prems" have "i = n + 1" by simp
    then show ?thesis
      by (subst sum_to_n_a_loop.simps) (simp add: algebra_simps)
  qed
qed

lemma sum_to_n_b_closed: "0 \<le> n \<Longrightarrow> 2 * sum_to_n_b n = n * (n + 1)"
proof (induction n rule: sum_to_n_b.induct)
  case (1 n)
  show ?case
  proof (cases "n \<le> 0 \<or> n = 1")
    case True
    then show ?thesis
      using "1.prems" by (subst sum_to_n_b.simps) auto
  next
    case False
    then have "2 * sum_to_n_b (n - 1) = (n - 1) * (n - 1 + 1)"
      using "1.IH" by simp
    then show ?thesis
      using False by (subst sum_to_n_b.simps) (simp add: algebra_simps)
  qed
qed

lemma even_consecutive: "even (n * (n + 1))" for n :: int
  by simp

lemma sum_to_n_c_closed: "0 \<le> n \<Longrightarrow> 2 * sum_to_n_c n = n * (n + 1)"
  using even_consecutive [of n] by (auto simp: sum_to_n_c_def)

text \<open>
  Claim C8. The three implementations agree on every integer: for \<open>n \<le> 0\<close> all three
  return 0, and for \<open>n \<ge> 1\<close> the common value is \<open>n * (n + 1) / 2\<close>, an exact
  quotient (twice the value is \<open>n * (n + 1)\<close>).
\<close>

theorem sum_to_n_equivalent:
  "sum_to_n_a n = sum_to_n_b n \<and> sum_to_n_b n = sum_to_n_c n
   \<and> sum_to_n_c n = (if n \<le> 0 then 0 else n * (n + 1) div 2)
   \<and> 2 * sum_to_n_c n = (if n \<le> 0 then 0 else n * (n + 1))"
proof (cases "n \<le> 0")
  case True
  then show ?thesis
    by (simp add: sum_to_n_a_def sum_to_n_c_def sum_to_n_b.simps [of n])
next
  case False
  then have pos: "0 \<le> n" "(1::int) \<le> n + 1" by simp_all
  have a: "2 * sum_to_n_a n = n * (n + 1)"
    using False sum_to_n_a_loop_closed [OF pos(2), of 0] by (simp add: sum_to_n_a_def)
  have b: "2 * sum_to_n_b n = n * (n + 1)" by (rule sum_to_n_b_closed [OF pos(1)])
  have c: "2 * sum_to_n_c n = n * (n + 1)" by (rule sum_to_n_c_closed [OF pos(1)])
  from a b c have "sum_to_n_a n = sum_to_n_b n" "sum_to_n_b n = sum_to_n_c n" by simp_all
  with c False show ?thesis by (simp add: sum_to_n_c_def)
qed

theorem sum_to_n_equivalent_witness:
  "sum_to_n_a 5 = 15 \<and> sum_to_n_b 5 = 15 \<and> sum_to_n_c 5 = 15
   \<and> sum_to_n_a (- 3) = 0 \<and> sum_to_n_b (- 3) = 0 \<and> sum_to_n_c (- 3) = 0"
  using sum_to_n_equivalent [of 5] sum_to_n_equivalent [of "- 3"] by simp

section \<open>Problem 5: the resources server\<close>

text \<open>
  The server keeps one SQLite table \<open>resources\<close> with the columns \<open>id\<close> (integer primary
  key, autoincrement), \<open>name\<close> (not null), \<open>description\<close>, \<open>status\<close>, \<open>createdAt\<close> and
  \<open>updatedAt\<close>. A row is the record \<open>Resource\<close>; the column \<open>id\<close> is the field \<open>rid\<close>,
  and a nullable column holds an \<open>option\<close> (\<open>None\<close> is SQL \<open>NULL\<close>).
\<close>

record Resource =
  rid :: int
  name :: string
  description :: "string option"
  status :: "string option"
  createdAt :: string
  updatedAt :: string

text \<open>
  The handlers read \<open>name\<close>, \<open>description\<close> and \<open>status\<close> from \<open>req.body\<close>, the value
  that \<open>express.json()\<close> parsed, or \<open>undefined\<close> where the middleware left none (whether
  it can do so depends on the version of Express, which the sources do not fix). The
  interfaces of \<open>types.ts\<close> type the properties as strings, but nothing checks a request
  against them: a property holds whatever JSON value the client sent. A number carries the
  value that the parser read.
\<close>

datatype json =
  JNull
| JBool bool
| JNumber real
| JString string
| JArray "json list"
| JObject "(string \<times> json) list"

text \<open>
  The three properties as the destructuring \<open>const { name, description, status } = req.body\<close>
  binds them: \<open>None\<close> is \<open>undefined\<close>, the value of a property that the body does not have.
  \<open>property v k\<close> reads the property \<open>k\<close> of a value that is neither \<open>undefined\<close> nor
  \<open>null\<close>: an object has the properties of its list (each key once), and no other JSON
  value has a property of these three names.
\<close>

record CreateResourceDto =
  create_name :: "json option"
  create_description :: "json option"
  create_status :: "json option"

record UpdateResourceDto =
  update_name :: "json option"
  update_description :: "json option"
  update_status :: "json option"

fun property :: "json \<Rightarrow> string \<Rightarrow> json option" where
  "property (JObject kvs) k = map_of kvs k"
| "property v k = None"

definition create_dto :: "json \<Rightarrow> CreateResourceDto" where
  "create_dto v =
     \<lparr>create_name = property v ''name'', create_description = property v ''description'',
      create_status = property v ''status''\<rparr>"

definition update_dto :: "json \<Rightarrow> UpdateResourceDto" where
  "update_dto v =
     \<lparr>update_name = property v ''name'', update_description = property v ''description'',
      update_status = property v ''status''\<rparr>"

text \<open>
  The database as the handlers see it: the rows of the table in insertion order and the
  counter that SQLite keeps for an \<open>AUTOINCREMENT\<close> key (the largest row id ever used).
\<close>

record database =
  resources :: "Resource list"
  sqlite_sequence :: int

text \<open>
  A response is the status code and the JSON body: either \<open>{error}\<close> or \<open>{message, data}\<close>,
  where \<open>data\<close> is what the final \<open>SELECT\<close> returned.
\<close>

datatype body = ErrorBody string | DataBody string "Resource option"

type_synonym response = "nat \<times> body"

text \<open>
  What the body of a \<open>try\<close> block can throw: a \<open>TypeError\<close> of the language (calling
  \<open>trim\<close> on a value that has no such method), the refusal of \<open>better-sqlite3\<close> to bind a
  parameter, and an error of SQLite itself. Each handler catches all of them alike and
  answers 500.
\<close>

datatype exception = TypeError | BindError | SqliteError

text \<open>
  \<open>String.prototype.trim\<close> removes white space and line terminators from both ends. Of
  these, the characters of an 8-bit \<open>char\<close> are tab, line feed, vertical tab, form feed,
  carriage return, space and the no-break space.
\<close>

definition isWhiteSpace :: "char \<Rightarrow> bool" where
  "isWhiteSpace c = (of_char c \<in> {9, 10, 11, 12, 13, 32, 160 :: nat})"

definition trim :: "string \<Rightarrow> string" where
  "trim s = rev (dropWhile isWhiteSpace (rev (dropWhile isWhiteSpace s)))"

text \<open>
  The operator \<open>!x\<close>: \<open>undefined\<close>, \<open>null\<close>, \<open>false\<close>, zero and the empty string are falsy;
  every other value, arrays and objects included, is truthy.
\<close>

fun falsy :: "json option \<Rightarrow> bool" where
  "falsy None = True"
| "falsy (Some JNull) = True"
| "falsy (Some (JBool b)) = (\<not> b)"
| "falsy (Some (JNumber x)) = (x = 0)"
| "falsy (Some (JString s)) = (s = [])"
| "falsy (Some (JArray xs)) = False"
| "falsy (Some (JObject kvs)) = False"

text \<open>
  The call \<open>x.trim()\<close>: only a string has the method. On \<open>undefined\<close> and \<open>null\<close> the
  property access throws, on any other value the call of a property that is not a function
  throws; both are a \<open>TypeError\<close>.
\<close>

fun call_trim :: "json option \<Rightarrow> exception + string" where
  "call_trim (Some (JString s)) = Inr (trim s)"
| "call_trim x = Inl TypeError"

text \<open>
  The expression \<open>x?.trim() || null\<close>: the optional chain stops at \<open>undefined\<close> and \<open>null\<close>,
  a string is trimmed and a blank one becomes \<open>null\<close>, and any other value throws as above.
\<close>

fun trim_or_null :: "json option \<Rightarrow> exception + string option" where
  "trim_or_null None = Inr None"
| "trim_or_null (Some JNull) = Inr None"
| "trim_or_null (Some (JString d)) = Inr (if trim d = [] then None else Some (trim d))"
| "trim_or_null (Some v) = Inl TypeError"

text \<open>\<open>typeof x === 'string'\<close>, and \<open>x == null\<close> (true of \<open>undefined\<close> and \<open>null\<close>).\<close>

fun is_string :: "json option \<Rightarrow> bool" where
  "is_string (Some (JString s)) = True"
| "is_string x = False"

fun nullish :: "json option \<Rightarrow> bool" where
  "nullish None = True"
| "nullish (Some JNull) = True"
| "nullish x = False"

text \<open>
  The value that reaches a \<open>TEXT\<close> column when \<open>run\<close> is given a JavaScript value for its
  parameter: \<open>null\<close> is stored as \<open>NULL\<close> and a string as itself. What \<open>better-sqlite3\<close> and
  SQLite make of any other value (a number, a boolean, an array, an object) is not part of
  the sources, so it is the parameter \<open>bind\<close>: \<open>None\<close> when \<open>run\<close> throws, otherwise the
  stored column value.
\<close>

fun column_value :: "(json \<Rightarrow> string option option) \<Rightarrow> json \<Rightarrow> exception + string option" where
  "column_value bind JNull = Inr None"
| "column_value bind (JString s) = Inr (Some s)"
| "column_value bind v = (case bind v of None \<Rightarrow> Inl BindError | Some c \<Rightarrow> Inr c)"

text \<open>
  The third argument of the insert, \<open>status || 'active'\<close>, as it is stored: a falsy status
  gives \<open>'active'\<close>, any other value is handed to \<open>run\<close>.
\<close>

definition status_or_active ::
  "(json \<Rightarrow> string option option) \<Rightarrow> json option \<Rightarrow> exception + string option" where
  "status_or_active bind x =
     (case x of None \<Rightarrow> Inr (Some ''active'')
      | Some v \<Rightarrow> if falsy (Some v) then Inr (Some ''active'') else column_value bind v)"

text \<open>\<open>SELECT * FROM resources WHERE id = ?\<close>, read with \<open>get\<close>: the first match, if any.\<close>

definition select_by_id :: "Resource list \<Rightarrow> int \<Rightarrow> Resource option" where
  "select_by_id rows i = find (\<lambda>r. rid r = i) rows"

text \<open>
  The row id of an insert into a table with an \<open>AUTOINCREMENT\<close> key: one more than the
  largest id that the table holds or has ever held. Row ids are signed 64-bit integers;
  once the largest one has been used, the insert fails (\<open>SQLITE_FULL\<close>).
\<close>

definition next_rowid :: "database \<Rightarrow> int" where
  "next_rowid db = fold max (map rid (resources db)) (max 0 (sqlite_sequence db)) + 1"

definition max_rowid :: int where
  "max_rowid = 2 ^ 63 - 1"

text \<open>
  \<open>INSERT INTO resources (name, description, status) VALUES (?, ?, ?)\<close>: both time stamps
  take their default \<open>CURRENT_TIMESTAMP\<close>, the argument \<open>now\<close>. The result is the row id
  and the new database, or the error of a full table.
\<close>

definition insert_resource ::
  "database \<Rightarrow> string \<Rightarrow> string \<Rightarrow> string option \<Rightarrow> string option
     \<Rightarrow> exception + int \<times> database" where
  "insert_resource db now n d s =
     (let i = next_rowid db in
      if max_rowid < i then Inl SqliteError
      else Inr (i, db\<lparr>resources := resources db @
                     [\<lparr>rid = i, name = n, description = d, status = s,
                       createdAt = now, updatedAt = now\<rparr>],
                   sqlite_sequence := i\<rparr>))"

text \<open>
  \<open>result.lastInsertRowid\<close> is a JavaScript number, the double nearest to the row id (ties
  to the even significand). \<open>ulp q i\<close> is the spacing of the doubles around a non-negative
  \<open>i\<close>, the least power of two from \<open>q\<close> on whose multiple by \<open>2 ^ 53\<close> exceeds \<open>i\<close>, and
  \<open>js_number i\<close> rounds \<open>i\<close> to a multiple of it. Up to \<open>2 ^ 53\<close> the conversion is exact.
\<close>

function ulp :: "int \<Rightarrow> int \<Rightarrow> int" where
  "ulp q i = (if q \<le> 0 \<or> i < q * 2 ^ 53 then q else ulp (2 * q) i)"
  by pat_completeness auto
termination
  by (relation "measure (\<lambda>(q, i). nat (i + 1 - q * 2 ^ 53))") auto

definition js_number :: "int \<Rightarrow> int" where
  "js_number i =
     (let q = ulp 1 i; r = i mod q; lo = i - r
      in if 2 * r < q then lo
         else if q < 2 * r then lo + q
         else if even (lo div q) then lo else lo + q)"

text \<open>
  The \<open>try\<close> block of \<open>router.post('/')\<close> from the guard on, given the three
  properties. The guard \<open>!name || name.trim() === ''\<close> answers
  400; on a truthy name that is not a string its second half throws. The arguments of
  \<open>run\<close> are evaluated next (a description that is neither nullish nor a string throws),
  then \<open>run\<close> binds them and inserts, and the row is read back by \<open>lastInsertRowid\<close>.
  Every throw happens before the insert takes effect.
\<close>

definition try_create_with ::
  "(json \<Rightarrow> string option option) \<Rightarrow> database \<Rightarrow> string \<Rightarrow> CreateResourceDto
     \<Rightarrow> exception + response \<times> database" where
  "try_create_with bind db now dto =
     (if falsy (create_name dto) then Inr ((400, ErrorBody ''Name is required''), db)
      else case call_trim (create_name dto) of
        Inl e \<Rightarrow> Inl e
      | Inr n \<Rightarrow>
          if n = [] then Inr ((400, ErrorBody ''Name is required''), db)
          else case trim_or_null (create_description dto) of
            Inl e \<Rightarrow> Inl e
          | Inr d \<Rightarrow>
              (case status_or_active bind (create_status dto) of
                 Inl e \<Rightarrow> Inl e
               | Inr s \<Rightarrow>
                   (case insert_resource db now n d s of
                      Inl e \<Rightarrow> Inl e
                    | Inr (i, db') \<Rightarrow>
                        Inr ((201, DataBody ''Resource created successfully''
                                     (select_by_id (resources db') (js_number i))), db'))))"

text \<open>
  The answer from there on: the \<open>catch\<close> branch turns whatever was thrown into the
  answer 500, with the database as it was.
\<close>

definition create_with ::
  "(json \<Rightarrow> string option option) \<Rightarrow> database \<Rightarrow> string \<Rightarrow> CreateResourceDto
     \<Rightarrow> response \<times> database" where
  "create_with bind db now dto =
     (case try_create_with bind db now dto of
        Inl e \<Rightarrow> ((500, ErrorBody ''Internal server error''), db)
      | Inr result \<Rightarrow> result)"

text \<open>
  \<open>router.put('/:id')\<close> builds the \<open>SET\<close> clause of its \<open>UPDATE\<close> from the properties that
  are not \<open>undefined\<close>. An \<open>assignment\<close> is one entry of \<open>updates\<close> with the value pushed
  for it; the status is pushed as it came.
\<close>

datatype assignment =
  SetName string
| SetDescription "string option"
| SetStatus json
| SetUpdatedAt string

text \<open>
  Binding the values of the statement: each assignment becomes the change it makes to a
  row, unless its value cannot be bound; then \<open>run\<close> throws and nothing is written.
\<close>

fun bind_assignment ::
  "(json \<Rightarrow> string option option) \<Rightarrow> assignment \<Rightarrow> exception + (Resource \<Rightarrow> Resource)" where
  "bind_assignment bind (SetName n) = Inr (\<lambda>r. r\<lparr>name := n\<rparr>)"
| "bind_assignment bind (SetDescription d) = Inr (\<lambda>r. r\<lparr>description := d\<rparr>)"
| "bind_assignment bind (SetStatus v) =
     (case column_value bind v of Inl e \<Rightarrow> Inl e | Inr c \<Rightarrow> Inr (\<lambda>r. r\<lparr>status := c\<rparr>))"
| "bind_assignment bind (SetUpdatedAt t) = Inr (\<lambda>r. r\<lparr>updatedAt := t\<rparr>)"

fun bind_all ::
  "(json \<Rightarrow> string option option) \<Rightarrow> assignment list \<Rightarrow> exception + (Resource \<Rightarrow> Resource)" where
  "bind_all bind [] = Inr (\<lambda>r. r)"
| "bind_all bind (a # as) =
     (case bind_assignment bind a of
        Inl e \<Rightarrow> Inl e
      | Inr f \<Rightarrow> (case bind_all bind as of Inl e \<Rightarrow> Inl e | Inr g \<Rightarrow> Inr (\<lambda>r. g (f r))))"

text \<open>\<open>UPDATE resources SET ... WHERE id = ?\<close>, run with the collected values.\<close>

definition run_update ::
  "(json \<Rightarrow> string option option) \<Rightarrow> Resource list \<Rightarrow> assignment list \<Rightarrow> int
     \<Rightarrow> exception + Resource list" where
  "run_update bind rows updates i =
     (case bind_all bind updates of
        Inl e \<Rightarrow> Inl e
      | Inr f \<Rightarrow> Inr (map (\<lambda>r. if rid r = i then f r else r) rows))"

text \<open>
  The handler after the check of the name, with the entries \<open>updates1\<close> pushed so far: the
  description is evaluated (and may throw), the status is pushed, an empty \<open>updates\<close>
  answers 400, and otherwise the statement runs with \<open>updatedAt = CURRENT_TIMESTAMP\<close> added
  and the row is read back.
\<close>

definition update_fields ::
  "(json \<Rightarrow> string option option) \<Rightarrow> database \<Rightarrow> string \<Rightarrow> int \<Rightarrow> UpdateResourceDto
     \<Rightarrow> assignment list \<Rightarrow> exception + response \<times> database" where
  "update_fields bind db now i dto updates1 =
     (case (case update_description dto of
              None \<Rightarrow> Inr updates1
            | Some v \<Rightarrow> (case trim_or_null (Some v) of
                           Inl e \<Rightarrow> Inl e
                         | Inr d \<Rightarrow> Inr (updates1 @ [SetDescription d]))) of
        Inl e \<Rightarrow> Inl e
      | Inr updates2 \<Rightarrow>
          (let updates = updates2 @
                 (case update_status dto of None \<Rightarrow> [] | Some v \<Rightarrow> [SetStatus v])
           in if length updates = 0
              then Inr ((400, ErrorBody ''No fields to update''), db)
              else
                (case run_update bind (resources db) (updates @ [SetUpdatedAt now]) i of
                   Inl e \<Rightarrow> Inl e
                 | Inr rows' \<Rightarrow>
                     Inr ((200, DataBody ''Resource updated successfully''
                                  (select_by_id rows' i)),
                          db\<lparr>resources := rows'\<rparr>))))"

text \<open>
  The \<open>try\<close> block of the handler after the destructuring, given the three properties.
  Its argument \<open>parsed\<close> is \<open>parseInt(req.params.id)\<close>,
  with \<open>None\<close> for \<open>NaN\<close>. The checks run in the order of the source: the id, the existing
  row, then the name, where \<open>name.trim()\<close> throws on \<open>null\<close> and on every other value that
  is not a string, and an empty result answers 400 at once.
\<close>

definition try_update_with ::
  "(json \<Rightarrow> string option option) \<Rightarrow> database \<Rightarrow> string \<Rightarrow> int option \<Rightarrow> UpdateResourceDto
     \<Rightarrow> exception + response \<times> database" where
  "try_update_with bind db now parsed dto =
     (case parsed of
        None \<Rightarrow> Inr ((400, ErrorBody ''Invalid resource ID''), db)
      | Some i \<Rightarrow>
          (case select_by_id (resources db) i of
             None \<Rightarrow> Inr ((404, ErrorBody ''Resource not found''), db)
           | Some existing \<Rightarrow>
               (case update_name dto of
                  None \<Rightarrow> update_fields bind db now i dto []
                | Some v \<Rightarrow>
                    (case call_trim (Some v) of
                       Inl e \<Rightarrow> Inl e
                     | Inr n \<Rightarrow>
                         if n = [] then Inr ((400, ErrorBody ''Name cannot be empty''), db)
                         else update_fields bind db now i dto [SetName n]))))"

text \<open>The answer from there on, with the \<open>catch\<close> branch.\<close>

definition update_with ::
  "(json \<Rightarrow> string option option) \<Rightarrow> database \<Rightarrow> string \<Rightarrow> int option \<Rightarrow> UpdateResourceDto
     \<Rightarrow> response \<times> database" where
  "update_with bind db now parsed dto =
     (case try_update_with bind db now parsed dto of
        Inl e \<Rightarrow> ((500, ErrorBody ''Internal server error''), db)
      | Inr result \<Rightarrow> result)"

lemmas server_defs = create_with_def try_create_with_def insert_resource_def next_rowid_def
  max_rowid_def select_by_id_def status_or_active_def update_with_def try_update_with_def
  update_fields_def run_update_def trim_def isWhiteSpace_def Let_def

text \<open>
  \<open>router.post('/')\<close>. The destructuring is the first statement of the \<open>try\<close> block and
  throws a \<open>TypeError\<close> when \<open>req.body\<close> is \<open>undefined\<close> or \<open>null\<close>; the \<open>catch\<close> branch
  answers 500.
\<close>

fun try_create ::
  "(json \<Rightarrow> string option option) \<Rightarrow> database \<Rightarrow> string \<Rightarrow> json option
     \<Rightarrow> exception + response \<times> database" where
  "try_create bind db now None = Inl TypeError"
| "try_create bind db now (Some JNull) = Inl TypeError"
| "try_create bind db now (Some v) = try_create_with bind db now (create_dto v)"

definition create_resource ::
  "(json \<Rightarrow> string option option) \<Rightarrow> database \<Rightarrow> string \<Rightarrow> json option
     \<Rightarrow> response \<times> database" where
  "create_resource bind db now req_body =
     (case try_create bind db now req_body of
        Inl e \<Rightarrow> ((500, ErrorBody ''Internal server error''), db)
      | Inr result \<Rightarrow> result)"

text \<open>
  \<open>router.put('/:id')\<close>. The id is parsed and the body is destructured before any check,
  so without a body the answer is 500 whatever the id.
\<close>

fun try_update ::
  "(json \<Rightarrow> string option option) \<Rightarrow> database \<Rightarrow> string \<Rightarrow> int option \<Rightarrow> json option
     \<Rightarrow> exception + response \<times> database" where
  "try_update bind db now parsed None = Inl TypeError"
| "try_update bind db now parsed (Some JNull) = Inl TypeError"
| "try_update bind db now parsed (Some v) = try_update_with bind db now parsed (update_dto v)"

definition update_resource ::
  "(json \<Rightarrow> string option option) \<Rightarrow> database \<Rightarrow> string \<Rightarrow> int option \<Rightarrow> json option
     \<Rightarrow> response \<times> database" where
  "update_resource bind db now parsed req_body =
     (case try_update bind db now parsed req_body of
        Inl e \<Rightarrow> ((500, ErrorBody ''Internal server error''), db)
      | Inr result \<Rightarrow> result)"

lemmas handler_defs = create_resource_def update_resource_def create_dto_def update_dto_def
  server_defs

subsection \<open>Creating a resource\<close>

lemma fold_max_ge: "a \<le> fold max xs (a::int)"
  by (induction xs arbitrary: a) (auto intro: order_trans [OF max.cobounded2])

lemma fold_max_ge_elem: "x \<in> set xs \<Longrightarrow> x \<le> fold max xs (a::int)"
proof (induction xs arbitrary: a)
  case Nil then show ?case by simp
next
  case (Cons y ys)
  show ?case
  proof (cases "x = y")
    case True
    have "max y a \<le> fold max ys (max y a)" by (rule fold_max_ge)
    with True show ?thesis by simp
  next
    case False
    with Cons show ?thesis by simp
  qed
qed

lemma next_rowid_fresh: "r \<in> set (resources db) \<Longrightarrow> rid r < next_rowid db"
  using fold_max_ge_elem [of "rid r" "map rid (resources db)" "max 0 (sqlite_sequence db)"]
  by (simp add: next_rowid_def)

lemma next_rowid_positive: "0 < next_rowid db"
  using fold_max_ge [of "max 0 (sqlite_sequence db)" "map rid (resources db)"]
  by (simp add: next_rowid_def)

lemma select_by_id_append_new:
  "\<forall>r \<in> set rows. rid r \<noteq> rid new \<Longrightarrow> select_by_id (rows @ [new]) (rid new) = Some new"
  by (induction rows) (auto simp: select_by_id_def)

lemma trim_Nil: "trim [] = []"
  by (simp add: trim_def)

declare ulp.simps [simp del]

lemma ulp_small: "i < 2 ^ 53 \<Longrightarrow> ulp 1 i = 1"
  by (subst ulp.simps) simp

lemma js_number_small: "i < 2 ^ 53 \<Longrightarrow> js_number i = i"
  by (simp add: js_number_def ulp_small)

lemma js_number_2_53: "js_number (2 ^ 53) = 2 ^ 53"
proof -
  have "ulp 2 (2 ^ 53) = 2"
    by (subst ulp.simps) simp
  then have "ulp 1 (2 ^ 53) = 2"
    by (subst ulp.simps) simp
  then show ?thesis by (simp add: js_number_def)
qed

lemma js_number_exact: "i \<le> 2 ^ 53 \<Longrightarrow> js_number i = i"
  using js_number_small [of i] js_number_2_53 by (cases "i = 2 ^ 53") auto

lemma call_trim_string: "(call_trim x = Inr n) = (\<exists>s. x = Some (JString s) \<and> n = trim s)"
  by (cases x rule: call_trim.cases) auto

lemma call_trim_throws: "isl (call_trim x) = (\<not> is_string x)"
  by (cases x rule: call_trim.cases) auto

lemma trim_or_null_throws: "isl (trim_or_null x) = (\<not> nullish x \<and> \<not> is_string x)"
  by (cases x rule: trim_or_null.cases) auto

lemma status_or_active_throws:
  "isl (status_or_active bind x) =
     (\<exists>v. x = Some v \<and> \<not> falsy x \<and> \<not> is_string x \<and> bind v = None)"
  by (cases x rule: falsy.cases) (auto simp: status_or_active_def split: option.splits)


lemma create_resource_rejects:
  assumes "falsy (create_name dto) \<or> (\<exists>s. create_name dto = Some (JString s) \<and> trim s = [])"
  shows "create_with bind db now dto = ((400, ErrorBody ''Name is required''), db)"
  using assms by (auto simp: create_with_def try_create_with_def)

lemma create_resource_throws:
  assumes "\<not> falsy (create_name dto)"
      and "\<not> (\<exists>s. create_name dto = Some (JString s) \<and> trim s = [])"
      and "\<not> is_string (create_name dto)
           \<or> (\<not> nullish (create_description dto) \<and> \<not> is_string (create_description dto))
           \<or> (\<exists>v. create_status dto = Some v \<and> \<not> falsy (create_status dto)
                    \<and> \<not> is_string (create_status dto) \<and> bind v = None)
           \<or> max_rowid < next_rowid db"
  shows "create_with bind db now dto = ((500, ErrorBody ''Internal server error''), db)"
proof -
  have name: "isl (call_trim (create_name dto)) \<or> (\<exists>n. call_trim (create_name dto) = Inr n \<and> n \<noteq> [])"
    using assms(2) by (cases "create_name dto" rule: call_trim.cases) auto
  have rest: "\<not> is_string (create_name dto)
           \<or> isl (trim_or_null (create_description dto))
           \<or> isl (status_or_active bind (create_status dto))
           \<or> max_rowid < next_rowid db"
    using assms(3) by (simp add: trim_or_null_throws status_or_active_throws)
  show ?thesis
    using assms(1) name rest
    by (auto simp: create_with_def try_create_with_def insert_resource_def Let_def
        call_trim_throws [symmetric] split: sum.splits)
qed

lemma create_resource_inserts:
  fixes db :: database and now :: string and dto :: CreateResourceDto
  assumes n: "call_trim (create_name dto) = Inr n" "n \<noteq> []"
      and d: "trim_or_null (create_description dto) = Inr d"
      and s: "status_or_active bind (create_status dto) = Inr s"
      and room: "next_rowid db \<le> max_rowid"
  defines "r \<equiv> \<lparr>rid = next_rowid db, name = n, description = d, status = s,
                  createdAt = now, updatedAt = now\<rparr>"
  shows "create_with bind db now dto =
           ((201, DataBody ''Resource created successfully''
                    (select_by_id (resources db @ [r]) (js_number (next_rowid db)))),
            db\<lparr>resources := resources db @ [r], sqlite_sequence := next_rowid db\<rparr>)"
proof -
  from n have "\<not> falsy (create_name dto)"
    using trim_Nil by (cases "create_name dto" rule: call_trim.cases) auto
  then show ?thesis
    using n d s room
    by (simp add: create_with_def try_create_with_def insert_resource_def Let_def r_def)
qed

lemma js_number_rounds: "js_number 9007199254740993 = 9007199254740992"
proof -
  have "ulp 2 9007199254740993 = 2"
    by (subst ulp.simps) simp
  then have "ulp 1 9007199254740993 = 2"
    by (subst ulp.simps) simp
  then show ?thesis by (simp add: js_number_def)
qed

lemma create_with_outcome:
  assumes run: "create_with bind db now dto = (resp, db')"
  shows "(fst resp = 400) =
           (falsy (create_name dto) \<or> (\<exists>s. create_name dto = Some (JString s) \<and> trim s = []))
       \<and> (fst resp = 500) =
           (\<not> falsy (create_name dto)
            \<and> \<not> (\<exists>s. create_name dto = Some (JString s) \<and> trim s = [])
            \<and> (\<not> is_string (create_name dto)
               \<or> (\<not> nullish (create_description dto) \<and> \<not> is_string (create_description dto))
               \<or> (\<exists>v. create_status dto = Some v \<and> \<not> falsy (create_status dto)
                        \<and> \<not> is_string (create_status dto) \<and> bind v = None)
               \<or> max_rowid < next_rowid db))
       \<and> (if fst resp = 400 \<or> fst resp = 500 then db' = db
          else fst resp = 201
             \<and> (\<exists>r. resources db' = resources db @ [r]
                  \<and> sqlite_sequence db' = rid r
                  \<and> rid r \<notin> rid ` set (resources db)
                  \<and> call_trim (create_name dto) = Inr (name r)
                  \<and> trim_or_null (create_description dto) = Inr (description r)
                  \<and> status_or_active bind (create_status dto) = Inr (status r)
                  \<and> (\<forall>t. create_name dto = Some (JString t) \<longrightarrow> name r = trim t)
                  \<and> (nullish (create_description dto) \<longrightarrow> description r = None)
                  \<and> (\<forall>t. create_description dto = Some (JString t) \<longrightarrow>
                        description r = (if trim t = [] then None else Some (trim t)))
                  \<and> (falsy (create_status dto) \<longrightarrow> status r = Some ''active'')
                  \<and> (\<forall>t. create_status dto = Some (JString t) \<and> t \<noteq> [] \<longrightarrow>
                        status r = Some t)
                  \<and> createdAt r = now \<and> updatedAt r = now
                  \<and> snd resp = DataBody ''Resource created successfully''
                                  (select_by_id (resources db') (js_number (rid r)))
                  \<and> (rid r \<le> 2 ^ 53 \<longrightarrow>
                        snd resp = DataBody ''Resource created successfully'' (Some r))))"
proof -
  consider (rejected) "falsy (create_name dto) \<or> (\<exists>s. create_name dto = Some (JString s) \<and> trim s = [])"
    | (throws) "\<not> falsy (create_name dto)"
        "\<not> (\<exists>s. create_name dto = Some (JString s) \<and> trim s = [])"
        "\<not> is_string (create_name dto)
           \<or> (\<not> nullish (create_description dto) \<and> \<not> is_string (create_description dto))
           \<or> (\<exists>v. create_status dto = Some v \<and> \<not> falsy (create_status dto)
                    \<and> \<not> is_string (create_status dto) \<and> bind v = None)
           \<or> max_rowid < next_rowid db"
    | (inserts) "\<not> falsy (create_name dto)"
        "\<not> (\<exists>s. create_name dto = Some (JString s) \<and> trim s = [])"
        "is_string (create_name dto)"
        "nullish (create_description dto) \<or> is_string (create_description dto)"
        "\<not> (\<exists>v. create_status dto = Some v \<and> \<not> falsy (create_status dto)
                    \<and> \<not> is_string (create_status dto) \<and> bind v = None)"
        "next_rowid db \<le> max_rowid"
    by fastforce
  then show ?thesis
  proof cases
    case rejected
    with create_resource_rejects [OF rejected, of bind db now] run show ?thesis by auto
  next
    case throws
    with create_resource_throws [OF throws, of now] run show ?thesis by auto
  next
    case inserts
    obtain n where n: "call_trim (create_name dto) = Inr n" "n \<noteq> []"
      using inserts(2,3) by (cases "create_name dto" rule: call_trim.cases) auto
    obtain d where d: "trim_or_null (create_description dto) = Inr d"
      using inserts(4) trim_or_null_throws [of "create_description dto"]
      by (cases "trim_or_null (create_description dto)") auto
    obtain s where s: "status_or_active bind (create_status dto) = Inr s"
      using inserts(5) status_or_active_throws [of bind "create_status dto"]
      by (cases "status_or_active bind (create_status dto)") auto
    define r where "r = \<lparr>rid = next_rowid db, name = n, description = d, status = s,
                  createdAt = now, updatedAt = now\<rparr>"
    have res: "resp = (201, DataBody ''Resource created successfully''
                    (select_by_id (resources db @ [r]) (js_number (next_rowid db))))"
      and db': "db' = db\<lparr>resources := resources db @ [r], sqlite_sequence := next_rowid db\<rparr>"
      using create_resource_inserts [OF n d s inserts(6), of now] run by (simp_all add: r_def)
    have fresh: "\<forall>x \<in> set (resources db). rid x \<noteq> rid r"
      by (auto simp: r_def dest: next_rowid_fresh)
    have sel: "next_rowid db \<le> 2 ^ 53 \<Longrightarrow>
        select_by_id (resources db @ [r]) (js_number (next_rowid db)) = Some r"
      using select_by_id_append_new [OF fresh] by (simp add: js_number_exact r_def)
    have nstr: "\<And>t. create_name dto = Some (JString t) \<Longrightarrow> n = trim t"
      using n by simp
    have dnull: "nullish (create_description dto) \<Longrightarrow> d = None"
      using d by (cases "create_description dto" rule: nullish.cases) auto
    have dstr: "\<And>t. create_description dto = Some (JString t) \<Longrightarrow>
        d = (if trim t = [] then None else Some (trim t))"
      using d by simp
    have sact: "falsy (create_status dto) \<Longrightarrow> s = Some ''active''"
      using s by (auto simp: status_or_active_def split: option.splits)
    have sstr: "\<And>t. create_status dto = Some (JString t) \<Longrightarrow> t \<noteq> [] \<Longrightarrow> s = Some t"
      using s by (simp add: status_or_active_def)
    have "fst resp = 201" by (simp add: res)
    moreover have "resources db' = resources db @ [r] \<and> sqlite_sequence db' = rid r
                  \<and> rid r \<notin> rid ` set (resources db)
                  \<and> call_trim (create_name dto) = Inr (name r)
                  \<and> trim_or_null (create_description dto) = Inr (description r)
                  \<and> status_or_active bind (create_status dto) = Inr (status r)
                  \<and> (\<forall>t. create_name dto = Some (JString t) \<longrightarrow> name r = trim t)
                  \<and> (nullish (create_description dto) \<longrightarrow> description r = None)
                  \<and> (\<forall>t. create_description dto = Some (JString t) \<longrightarrow>
                        description r = (if trim t = [] then None else Some (trim t)))
                  \<and> (falsy (create_status dto) \<longrightarrow> status r = Some ''active'')
                  \<and> (\<forall>t. create_status dto = Some (JString t) \<and> t \<noteq> [] \<longrightarrow>
                        status r = Some t)
                  \<and> createdAt r = now \<and> updatedAt r = now
                  \<and> snd resp = DataBody ''Resource created successfully''
                                  (select_by_id (resources db') (js_number (rid r)))
                  \<and> (rid r \<le> 2 ^ 53 \<longrightarrow>
                        snd resp = DataBody ''Resource created successfully'' (Some r))"
      using fresh n d s sel nstr dnull dstr sact sstr
      by (auto simp: res db' r_def simp del: falsy.simps is_string.simps nullish.simps)
    ultimately show ?thesis
      using inserts by (auto simp del: falsy.simps is_string.simps nullish.simps)
  qed
qed

lemma create_resource_no_body:
  "nullish req_body \<Longrightarrow> create_resource bind db now req_body = ((500, ErrorBody ''Internal server error''), db)"
  by (cases req_body rule: nullish.cases) (simp_all add: create_resource_def)

lemma create_resource_body:
  "v \<noteq> JNull \<Longrightarrow> create_resource bind db now (Some v) = create_with bind db now (create_dto v)"
  by (cases v) (simp_all add: create_resource_def create_with_def)

text \<open>
  Claim C10, as stated: 400 with no insert exactly when the name is absent or trims to the
  empty string, and otherwise one inserted row and 201. A body with \<open>name: 123\<close> passes the
  guard \<open>!name\<close> and throws in \<open>name.trim()\<close>: the answer is 500 and no row is inserted. The
  name \<open>false\<close> is neither absent nor a blank string and is answered 400. A description
  that is a number throws as well, and so does the insert once the largest row id has been
  used. With a row of id \<open>2 ^ 53\<close> in the table the insert succeeds, but the next id is
  rounded by \<open>lastInsertRowid\<close> and the body of the answer carries the old row.
\<close>

theorem create_resource_counterexample:
  "create_resource Map.empty \<lparr>resources = [], sqlite_sequence = 0\<rparr> ''2024-01-01 12:00:00''
      (Some (JObject [(''name'', JNumber 123)]))
     = ((500, ErrorBody ''Internal server error''), \<lparr>resources = [], sqlite_sequence = 0\<rparr>)
   \<and> create_resource Map.empty \<lparr>resources = [], sqlite_sequence = 0\<rparr> ''2024-01-01 12:00:00''
      (Some (JObject [(''name'', JBool False)]))
     = ((400, ErrorBody ''Name is required''), \<lparr>resources = [], sqlite_sequence = 0\<rparr>)
   \<and> create_resource Map.empty \<lparr>resources = [], sqlite_sequence = 0\<rparr> ''2024-01-01 12:00:00''
      (Some (JObject [(''name'', JString ''gadget''), (''description'', JNumber 7)]))
     = ((500, ErrorBody ''Internal server error''), \<lparr>resources = [], sqlite_sequence = 0\<rparr>)
   \<and> create_resource Map.empty \<lparr>resources = [], sqlite_sequence = 9223372036854775807\<rparr>
      ''2024-01-01 12:00:00'' (Some (JObject [(''name'', JString ''gadget'')]))
     = ((500, ErrorBody ''Internal server error''),
        \<lparr>resources = [], sqlite_sequence = 9223372036854775807\<rparr>)
   \<and> fst (create_resource Map.empty
        \<lparr>resources = [\<lparr>rid = 9007199254740992, name = ''old'', description = None,
                        status = Some ''active'', createdAt = ''2023-12-31 09:00:00'',
                        updatedAt = ''2023-12-31 09:00:00''\<rparr>],
          sqlite_sequence = 9007199254740992\<rparr>
        ''2024-01-01 12:00:00'' (Some (JObject [(''name'', JString ''gadget'')])))
     = (201, DataBody ''Resource created successfully''
          (Some \<lparr>rid = 9007199254740992, name = ''old'', description = None,
                  status = Some ''active'', createdAt = ''2023-12-31 09:00:00'',
                  updatedAt = ''2023-12-31 09:00:00''\<rparr>))"
  by (simp add: handler_defs js_number_rounds)

text \<open>
  Claim C10, amended. \<open>POST /api/resources\<close> answers 400 and inserts no row exactly when
  the name is falsy (absent, \<open>null\<close>, \<open>false\<close>, 0 or the empty string) or is a string that
  trims to the empty string. It answers 500 and inserts no row exactly when the name is
  any other value that is not a string, or the description is neither absent, \<open>null\<close> nor
  a string, or the status is a truthy value that the database refuses to bind, or the row
  ids are exhausted; also when \<open>req.body\<close> itself is \<open>undefined\<close> or \<open>null\<close>. Otherwise it
  answers 201 and appends exactly one row, with a fresh id, the trimmed name, a description
  that is \<open>NULL\<close> when omitted, \<open>null\<close> or blank and the trimmed text otherwise, the status
  \<open>active\<close> when omitted or falsy and the given string otherwise, and both time stamps set
  to the clock; the body of the answer carries the row found under \<open>lastInsertRowid\<close>,
  which is the inserted row whenever its id is at most \<open>2 ^ 53\<close>.
\<close>

theorem create_resource_outcome:
  assumes run: "create_resource bind db now req_body = (resp, db')"
  shows "(nullish req_body \<longrightarrow> fst resp = 500 \<and> db' = db)
       \<and> (\<forall>b. req_body = Some b \<and> b \<noteq> JNull \<longrightarrow>
            (let dto = create_dto b in
                   (fst resp = 400) =
                   (falsy (create_name dto) \<or> (\<exists>s. create_name dto = Some (JString s) \<and> trim s = []))
               \<and> (fst resp = 500) =
                   (\<not> falsy (create_name dto)
                    \<and> \<not> (\<exists>s. create_name dto = Some (JString s) \<and> trim s = [])
                    \<and> (\<not> is_string (create_name dto)
                       \<or> (\<not> nullish (create_description dto) \<and> \<not> is_string (create_description dto))
                       \<or> (\<exists>v. create_status dto = Some v \<and> \<not> falsy (create_status dto)
                                \<and> \<not> is_string (create_status dto) \<and> bind v = None)
                       \<or> max_rowid < next_rowid db))
               \<and> (if fst resp = 400 \<or> fst resp = 500 then db' = db
                  else fst resp = 201
                     \<and> (\<exists>r. resources db' = resources db @ [r]
                          \<and> sqlite_sequence db' = rid r
                          \<and> rid r \<notin> rid ` set (resources db)
                          \<and> call_trim (create_name dto) = Inr (name r)
                          \<and> trim_or_null (create_description dto) = Inr (description r)
                          \<and> status_or_active bind (create_status dto) = Inr (status r)
                          \<and> (\<forall>t. create_name dto = Some (JString t) \<longrightarrow> name r = trim t)
                          \<and> (nullish (create_description dto) \<longrightarrow> description r = None)
                          \<and> (\<forall>t. create_description dto = Some (JString t) \<longrightarrow>
                                description r = (if trim t = [] then None else Some (trim t)))
                          \<and> (falsy (create_status dto) \<longrightarrow> status r = Some ''active'')
                          \<and> (\<forall>t. create_status dto = Some (JString t) \<and> t \<noteq> [] \<longrightarrow>
                                status r = Some t)
                          \<and> createdAt r = now \<and> updatedAt r = now
                          \<and> snd resp = DataBody ''Resource created successfully''
                                          (select_by_id (resources db') (js_number (rid r)))
                          \<and> (rid r \<le> 2 ^ 53 \<longrightarrow>
                                snd resp = DataBody ''Resource created successfully'' (Some r))))))"
proof (rule conjI)
  show "nullish req_body \<longrightarrow> fst resp = 500 \<and> db' = db"
    using create_resource_no_body [of req_body bind db now] run by simp
next
  show "\<forall>b. req_body = Some b \<and> b \<noteq> JNull \<longrightarrow>
            (let dto = create_dto b in
                   (fst resp = 400) =
                   (falsy (create_name dto) \<or> (\<exists>s. create_name dto = Some (JString s) \<and> trim s = []))
               \<and> (fst resp = 500) =
                   (\<not> falsy (create_name dto)
                    \<and> \<not> (\<exists>s. create_name dto = Some (JString s) \<and> trim s = [])
                    \<and> (\<not> is_string (create_name dto)
                       \<or> (\<not> nullish (create_description dto) \<and> \<not> is_string (create_description dto))
                       \<or> (\<exists>v. create_status dto = Some v \<and> \<not> falsy (create_status dto)
                                \<and> \<not> is_string (create_status dto) \<and> bind v = None)
                       \<or> max_rowid < next_rowid db))
               \<and> (if fst resp = 400 \<or> fst resp = 500 then db' = db
                  else fst resp = 201
                     \<and> (\<exists>r. resources db' = resources db @ [r]
                          \<and> sqlite_sequence db' = rid r
                          \<and> rid r \<notin> rid ` set (resources db)
                          \<and> call_trim (create_name dto) = Inr (name r)
                          \<and> trim_or_null (create_description dto) = Inr (description r)
                          \<and> status_or_active bind (create_status dto) = Inr (status r)
                          \<and> (\<forall>t. create_name dto = Some (JString t) \<longrightarrow> name r = trim t)
                          \<and> (nullish (create_description dto) \<longrightarrow> description r = None)
                          \<and> (\<forall>t. create_description dto = Some (JString t) \<longrightarrow>
                                description r = (if trim t = [] then None else Some (trim t)))
                          \<and> (falsy (create_status dto) \<longrightarrow> status r = Some ''active'')
                          \<and> (\<forall>t. create_status dto = Some (JString t) \<and> t \<noteq> [] \<longrightarrow>
                                status r = Some t)
                          \<and> createdAt r = now \<and> updatedAt r = now
                          \<and> snd resp = DataBody ''Resource created successfully''
                                          (select_by_id (resources db') (js_number (rid r)))
                          \<and> (rid r \<le> 2 ^ 53 \<longrightarrow>
                                snd resp = DataBody ''Resource created successfully'' (Some r)))))"
  proof (intro allI impI)
  fix b
  assume "req_body = Some b \<and> b \<noteq> JNull"
  with create_resource_body [of b bind db now] run
  have "create_with bind db now (create_dto b) = (resp, db')" by simp
  from create_with_outcome [OF this]
  show "let dto = create_dto b in
                   (fst resp = 400) =
                   (falsy (create_name dto) \<or> (\<exists>s. create_name dto = Some (JString s) \<and> trim s = []))
               \<and> (fst resp = 500) =
                   (\<not> falsy (create_name dto)
                    \<and> \<not> (\<exists>s. create_name dto = Some (JString s) \<and> trim s = [])
                    \<and> (\<not> is_string (create_name dto)
                       \<or> (\<not> nullish (create_description dto) \<and> \<not> is_string (create_description dto))
                       \<or> (\<exists>v. create_status dto = Some v \<and> \<not> falsy (create_status dto)
                                \<and> \<not> is_string (create_status dto) \<and> bind v = None)
                       \<or> max_rowid < next_rowid db))
               \<and> (if fst resp = 400 \<or> fst resp = 500 then db' = db
                  else fst resp = 201
                     \<and> (\<exists>r. resources db' = resources db @ [r]
                          \<and> sqlite_sequence db' = rid r
                          \<and> rid r \<notin> rid ` set (resources db)
                          \<and> call_trim (create_name dto) = Inr (name r)
                          \<and> trim_or_null (create_description dto) = Inr (description r)
                          \<and> status_or_active bind (create_status dto) = Inr (status r)
                          \<and> (\<forall>t. create_name dto = Some (JString t) \<longrightarrow> name r = trim t)
                          \<and> (nullish (create_description dto) \<longrightarrow> description r = None)
                          \<and> (\<forall>t. create_description dto = Some (JString t) \<longrightarrow>
                                description r = (if trim t = [] then None else Some (trim t)))
                          \<and> (falsy (create_status dto) \<longrightarrow> status r = Some ''active'')
                          \<and> (\<forall>t. create_status dto = Some (JString t) \<and> t \<noteq> [] \<longrightarrow>
                                status r = Some t)
                          \<and> createdAt r = now \<and> updatedAt r = now
                          \<and> snd resp = DataBody ''Resource created successfully''
                                          (select_by_id (resources db') (js_number (rid r)))
                          \<and> (rid r \<le> 2 ^ 53 \<longrightarrow>
                                snd resp = DataBody ''Resource created successfully'' (Some r))))"
    unfolding Let_def .
  qed
qed

theorem create_resource_outcome_witness:
  "create_resource Map.empty \<lparr>resources = [], sqlite_sequence = 0\<rparr> ''2024-01-01 12:00:00''
      (Some (JObject [(''name'', JString '' My First Resource ''),
                      (''description'', JString ''  '')]))
    = ((201, DataBody ''Resource created successfully''
          (Some \<lparr>rid = 1, name = ''My First Resource'', description = None,
                  status = Some ''active'', createdAt = ''2024-01-01 12:00:00'',
                  updatedAt = ''2024-01-01 12:00:00''\<rparr>)),
       \<lparr>resources = [\<lparr>rid = 1, name = ''My First Resource'', description = None,
                  status = Some ''active'', createdAt = ''2024-01-01 12:00:00'',
                  updatedAt = ''2024-01-01 12:00:00''\<rparr>], sqlite_sequence = 1\<rparr>)"
proof -
  have one: "js_number 1 = 1" by (rule js_number_small) simp
  have run: "create_resource Map.empty \<lparr>resources = [], sqlite_sequence = 0\<rparr> ''2024-01-01 12:00:00''
      (Some (JObject [(''name'', JString '' My First Resource ''),
                      (''description'', JString ''  '')]))
    = ((201, DataBody ''Resource created successfully''
          (Some \<lparr>rid = 1, name = ''My First Resource'', description = None,
                  status = Some ''active'', createdAt = ''2024-01-01 12:00:00'',
                  updatedAt = ''2024-01-01 12:00:00''\<rparr>)),
       \<lparr>resources = [\<lparr>rid = 1, name = ''My First Resource'', description = None,
                  status = Some ''active'', createdAt = ''2024-01-01 12:00:00'',
                  updatedAt = ''2024-01-01 12:00:00''\<rparr>], sqlite_sequence = 1\<rparr>)"
    by (simp add: handler_defs one)
  from create_resource_outcome [OF run] show ?thesis
    by - (rule run)
qed

subsection \<open>Updating a resource\<close>

lemma bind_all_append:
  "bind_all bind (xs @ ys) =
     (case bind_all bind xs of
        Inl e \<Rightarrow> Inl e
      | Inr f \<Rightarrow> (case bind_all bind ys of Inl e \<Rightarrow> Inl e | Inr g \<Rightarrow> Inr (\<lambda>r. g (f r))))"
  by (induction xs) (auto split: sum.splits)

lemma select_by_id_map:
  "(\<And>r. rid (f r) = rid r) \<Longrightarrow>
     select_by_id (map (\<lambda>r. if rid r = i then f r else r) rows) i = map_option f (select_by_id rows i)"
  by (induction rows) (auto simp: select_by_id_def)

lemma select_by_id_rid: "select_by_id rows i = Some r \<Longrightarrow> rid r = i"
  by (auto simp: select_by_id_def dest: find_Some_iff [THEN iffD1])

text \<open>
  Two closed forms used in the proofs: the row that a successful update writes in place of
  \<open>r\<close>, and the entries pushed for the three fields when the name is absent or a string.
\<close>

definition updated_row ::
  "(json \<Rightarrow> string option option) \<Rightarrow> string \<Rightarrow> UpdateResourceDto \<Rightarrow> Resource \<Rightarrow> Resource" where
  "updated_row bind now dto r =
     r\<lparr>name := (case update_name dto of Some (JString s) \<Rightarrow> trim s | _ \<Rightarrow> name r),
       description := (case update_description dto of
                         None \<Rightarrow> description r
                       | Some (JString d) \<Rightarrow> if trim d = [] then None else Some (trim d)
                       | Some v \<Rightarrow> None),
       status := (case update_status dto of
                    None \<Rightarrow> status r
                  | Some v \<Rightarrow> (case column_value bind v of Inr c \<Rightarrow> c | Inl e \<Rightarrow> status r)),
       updatedAt := now\<rparr>"

lemma column_value_throws: "isl (column_value bind v) \<Longrightarrow> column_value bind v = Inl BindError"
  by (cases "(bind, v)" rule: column_value.cases) (auto split: option.splits)

definition pushed :: "UpdateResourceDto \<Rightarrow> assignment list" where
  "pushed dto =
     (case update_name dto of Some (JString s) \<Rightarrow> [SetName (trim s)] | _ \<Rightarrow> []) @
     (case update_description dto of
        None \<Rightarrow> []
      | Some (JString d) \<Rightarrow> [SetDescription (if trim d = [] then None else Some (trim d))]
      | Some v \<Rightarrow> [SetDescription None]) @
     (case update_status dto of None \<Rightarrow> [] | Some v \<Rightarrow> [SetStatus v])"



lemma bind_name_part:
  "\<exists>fn. bind_all bind
      (case update_name dto of Some (JString s) \<Rightarrow> [SetName (trim s)] | _ \<Rightarrow> []) = Inr fn
    \<and> (\<forall>r. fn r = r\<lparr>name := (case update_name dto of Some (JString s) \<Rightarrow> trim s
                                 | _ \<Rightarrow> name r)\<rparr>)"
  by (cases "update_name dto" rule: is_string.cases) simp_all

lemma bind_description_part:
  "\<exists>fd. bind_all bind
      (case update_description dto of
        None \<Rightarrow> []
      | Some (JString d) \<Rightarrow> [SetDescription (if trim d = [] then None else Some (trim d))]
      | Some v \<Rightarrow> [SetDescription None]) = Inr fd
    \<and> (\<forall>r. fd r = r\<lparr>description := (case update_description dto of
                         None \<Rightarrow> description r
                       | Some (JString d) \<Rightarrow> if trim d = [] then None else Some (trim d)
                       | Some v \<Rightarrow> None)\<rparr>)"
  by (cases "update_description dto" rule: is_string.cases) simp_all

lemma bind_status_part:
  assumes "\<not> (\<exists>v. update_status dto = Some v \<and> isl (column_value bind v))"
  shows "\<exists>fs. bind_all bind
      (case update_status dto of None \<Rightarrow> [] | Some v \<Rightarrow> [SetStatus v]) = Inr fs
    \<and> (\<forall>r. fs r = r\<lparr>status := (case update_status dto of
                    None \<Rightarrow> status r
                  | Some v \<Rightarrow> (case column_value bind v of Inr c \<Rightarrow> c
                              | Inl e \<Rightarrow> status r))\<rparr>)"
proof (cases "update_status dto")
  case None
  then show ?thesis by simp
next
  case (Some v)
  with assms obtain c where "column_value bind v = Inr c"
    by (cases "column_value bind v") auto
  with Some show ?thesis by simp
qed

lemma bind_all_pushed_throws:
  assumes "update_status dto = Some v" "isl (column_value bind v)"
  shows "bind_all bind (pushed dto @ [SetUpdatedAt now]) = Inl BindError"
proof -
  have cv: "column_value bind v = Inl BindError"
    by (rule column_value_throws [OF assms(2)])
  from bind_name_part [of bind dto] obtain fn where fn: "bind_all bind
      (case update_name dto of Some (JString s) \<Rightarrow> [SetName (trim s)] | _ \<Rightarrow> []) = Inr fn"
    by blast
  from bind_description_part [of bind dto] obtain fd where fd: "bind_all bind
      (case update_description dto of
        None \<Rightarrow> []
      | Some (JString d) \<Rightarrow> [SetDescription (if trim d = [] then None else Some (trim d))]
      | Some v \<Rightarrow> [SetDescription None]) = Inr fd"
    by blast
  show ?thesis
    using assms(1) by (simp add: pushed_def bind_all_append fn fd cv)
qed

lemma bind_all_pushed:
  assumes "\<not> (\<exists>v. update_status dto = Some v \<and> isl (column_value bind v))"
  shows "\<exists>f. bind_all bind (pushed dto @ [SetUpdatedAt now]) = Inr f
            \<and> (\<forall>r. f r = updated_row bind now dto r)"
proof -
  from bind_name_part [of bind dto] obtain fn where fn: "bind_all bind
      (case update_name dto of Some (JString s) \<Rightarrow> [SetName (trim s)] | _ \<Rightarrow> []) = Inr fn"
    "\<forall>r. fn r = r\<lparr>name := (case update_name dto of Some (JString s) \<Rightarrow> trim s
                                 | _ \<Rightarrow> name r)\<rparr>"
    by blast
  from bind_description_part [of bind dto] obtain fd where fd: "bind_all bind
      (case update_description dto of
        None \<Rightarrow> []
      | Some (JString d) \<Rightarrow> [SetDescription (if trim d = [] then None else Some (trim d))]
      | Some v \<Rightarrow> [SetDescription None]) = Inr fd"
    "\<forall>r. fd r = r\<lparr>description := (case update_description dto of
                         None \<Rightarrow> description r
                       | Some (JString d) \<Rightarrow> if trim d = [] then None else Some (trim d)
                       | Some v \<Rightarrow> None)\<rparr>"
    by blast
  from bind_status_part [OF assms] obtain fs where fs: "bind_all bind
      (case update_status dto of None \<Rightarrow> [] | Some v \<Rightarrow> [SetStatus v]) = Inr fs"
    "\<forall>r. fs r = r\<lparr>status := (case update_status dto of
                    None \<Rightarrow> status r
                  | Some v \<Rightarrow> (case column_value bind v of Inr c \<Rightarrow> c
                              | Inl e \<Rightarrow> status r))\<rparr>"
    by blast
  have keep: "\<And>r. description (fn r) = description r" "\<And>r. status (fn r) = status r"
    "\<And>r. status (fd r) = status r"
    by (simp_all add: fn(2) fd(2))
  have "\<And>r. fs (fd (fn r)) \<lparr>updatedAt := now\<rparr> = updated_row bind now dto r"
    by (simp add: fn(2) fd(2) fs(2) updated_row_def keep
        split: option.splits json.splits sum.splits)
  then show ?thesis
    by (simp add: pushed_def bind_all_append fn(1) fd(1) fs(1))
qed


lemma description_pushed:
  "(case update_description dto of
      None \<Rightarrow> Inr us1
    | Some v \<Rightarrow> (case trim_or_null (Some v) of
                   Inl e \<Rightarrow> Inl e
                 | Inr d \<Rightarrow> Inr (us1 @ [SetDescription d]))) =
   (if \<not> nullish (update_description dto) \<and> \<not> is_string (update_description dto)
    then Inl TypeError
    else Inr (us1 @ (case update_description dto of
                       None \<Rightarrow> []
                     | Some (JString d) \<Rightarrow>
                         [SetDescription (if trim d = [] then None else Some (trim d))]
                     | Some v \<Rightarrow> [SetDescription None])))"
  by (cases "update_description dto" rule: trim_or_null.cases) simp_all

lemma update_fields_outcome:
  assumes us1: "us1 = (case update_name dto of Some (JString s) \<Rightarrow> [SetName (trim s)] | _ \<Rightarrow> [])"
  shows "update_fields bind db now i dto us1 =
     (if \<not> nullish (update_description dto) \<and> \<not> is_string (update_description dto)
      then Inl TypeError
      else if pushed dto = [] then Inr ((400, ErrorBody ''No fields to update''), db)
      else (case bind_all bind (pushed dto @ [SetUpdatedAt now]) of
              Inl e \<Rightarrow> Inl e
            | Inr f \<Rightarrow>
                Inr ((200, DataBody ''Resource updated successfully''
                       (select_by_id (map (\<lambda>r. if rid r = i then f r else r) (resources db)) i)),
                     db\<lparr>resources := map (\<lambda>r. if rid r = i then f r else r) (resources db)\<rparr>)))"
  unfolding update_fields_def description_pushed
  by (simp add: us1 pushed_def run_update_def Let_def split: sum.splits
      del: nullish.simps is_string.simps)

lemma pushed_empty:
  "update_name dto = None \<or> is_string (update_name dto) \<Longrightarrow>
     (pushed dto = []) =
       (update_name dto = None \<and> update_description dto = None \<and> update_status dto = None)"
  by (cases "update_name dto" rule: is_string.cases)
     (auto simp: pushed_def split: option.splits json.splits)


lemma update_resource_rejects:
  assumes ex: "select_by_id (resources db) i = Some existing"
      and rej: "(update_name dto = None \<and> update_description dto = None \<and> update_status dto = None)
                \<or> (\<exists>s. update_name dto = Some (JString s) \<and> trim s = [])"
  shows "fst (fst (update_with bind db now (Some i) dto)) = 400"
    and "snd (update_with bind db now (Some i) dto) = db"
proof -
  have "fst (fst (update_with bind db now (Some i) dto)) = 400
      \<and> snd (update_with bind db now (Some i) dto) = db"
  proof (cases "\<exists>s. update_name dto = Some (JString s) \<and> trim s = []")
    case True
    then show ?thesis using ex by (auto simp: update_with_def try_update_with_def)
  next
    case False
    with rej have none: "update_name dto = None" "update_description dto = None"
      "update_status dto = None" by auto
    then have "pushed dto = []" by (simp add: pushed_def)
    then show ?thesis
      using ex none
      by (simp add: update_with_def try_update_with_def update_fields_outcome)
  qed
  then show "fst (fst (update_with bind db now (Some i) dto)) = 400"
    and "snd (update_with bind db now (Some i) dto) = db" by simp_all
qed

lemma update_resource_throws:
  assumes ex: "select_by_id (resources db) i = Some existing"
      and nrej: "\<not> ((update_name dto = None \<and> update_description dto = None
                     \<and> update_status dto = None)
                \<or> (\<exists>s. update_name dto = Some (JString s) \<and> trim s = []))"
      and bad: "(update_name dto \<noteq> None \<and> \<not> is_string (update_name dto))
                \<or> (\<not> nullish (update_description dto) \<and> \<not> is_string (update_description dto))
                \<or> (\<exists>v. update_status dto = Some v \<and> isl (column_value bind v))"
  shows "update_with bind db now (Some i) dto = ((500, ErrorBody ''Internal server error''), db)"
proof (cases "update_name dto \<noteq> None \<and> \<not> is_string (update_name dto)")
  case True
  then have "isl (call_trim (update_name dto))" by (simp add: call_trim_throws)
  then show ?thesis
    using ex True
    by (auto simp: update_with_def try_update_with_def split: option.splits sum.splits)
next
  case okname: False
  then have nm: "update_name dto = None \<or> is_string (update_name dto)" by blast
  have notempty: "pushed dto \<noteq> []"
    using nrej pushed_empty [OF nm] by blast
  have rest: "update_fields bind db now i dto
      (case update_name dto of Some (JString s) \<Rightarrow> [SetName (trim s)] | _ \<Rightarrow> []) = Inl TypeError
    \<or> update_fields bind db now i dto
      (case update_name dto of Some (JString s) \<Rightarrow> [SetName (trim s)] | _ \<Rightarrow> []) = Inl BindError"
  proof (cases "\<not> nullish (update_description dto) \<and> \<not> is_string (update_description dto)")
    case True
    then show ?thesis by (simp add: update_fields_outcome del: nullish.simps is_string.simps)
  next
    case False
    with bad okname obtain v where "update_status dto = Some v" "isl (column_value bind v)"
      by blast
    then have "bind_all bind (pushed dto @ [SetUpdatedAt now]) = Inl BindError"
      by (rule bind_all_pushed_throws)
    then show ?thesis
      using False notempty
      by (simp add: update_fields_outcome del: nullish.simps is_string.simps)
  qed
  show ?thesis
  proof (cases "update_name dto")
    case None
    then show ?thesis using ex rest by (auto simp: update_with_def try_update_with_def)
  next
    case (Some v)
    with nm obtain s where s: "update_name dto = Some (JString s)"
      by (cases "update_name dto" rule: is_string.cases) auto
    with nrej have "trim s \<noteq> []" by auto
    then show ?thesis
      using ex rest s by (auto simp: update_with_def try_update_with_def)
  qed
qed

lemma update_resource_updates:
  assumes ex: "select_by_id (resources db) i = Some existing"
      and nrej: "\<not> ((update_name dto = None \<and> update_description dto = None
                     \<and> update_status dto = None)
                \<or> (\<exists>s. update_name dto = Some (JString s) \<and> trim s = []))"
      and good: "\<not> ((update_name dto \<noteq> None \<and> \<not> is_string (update_name dto))
                \<or> (\<not> nullish (update_description dto) \<and> \<not> is_string (update_description dto))
                \<or> (\<exists>v. update_status dto = Some v \<and> isl (column_value bind v)))"
  shows "update_with bind db now (Some i) dto =
     ((200, DataBody ''Resource updated successfully'' (Some (updated_row bind now dto existing))),
      db\<lparr>resources := map (\<lambda>r. if rid r = i then updated_row bind now dto r else r)
                          (resources db)\<rparr>)"
proof -
  from good have nm: "update_name dto = None \<or> is_string (update_name dto)"
    and okd: "\<not> (\<not> nullish (update_description dto) \<and> \<not> is_string (update_description dto))"
    and oks: "\<not> (\<exists>v. update_status dto = Some v \<and> isl (column_value bind v))"
    by blast+
  have notempty: "pushed dto \<noteq> []"
    using nrej pushed_empty [OF nm] by blast
  from bind_all_pushed [OF oks, of now] obtain f
    where f: "bind_all bind (pushed dto @ [SetUpdatedAt now]) = Inr f"
      "\<forall>r. f r = updated_row bind now dto r" by blast
  have rows: "map (\<lambda>r. if rid r = i then f r else r) (resources db)
      = map (\<lambda>r. if rid r = i then updated_row bind now dto r else r) (resources db)"
    by (simp add: f(2))
  have rid_same: "\<And>r. rid (updated_row bind now dto r) = rid r"
    by (simp add: updated_row_def)
  have sel: "select_by_id (map (\<lambda>r. if rid r = i then updated_row bind now dto r else r)
      (resources db)) i = Some (updated_row bind now dto existing)"
    using select_by_id_map [of "updated_row bind now dto" i "resources db"] rid_same ex
    by simp
  have fields: "update_fields bind db now i dto
      (case update_name dto of Some (JString s) \<Rightarrow> [SetName (trim s)] | _ \<Rightarrow> []) =
     Inr ((200, DataBody ''Resource updated successfully''
            (Some (updated_row bind now dto existing))),
          db\<lparr>resources := map (\<lambda>r. if rid r = i then updated_row bind now dto r else r)
                          (resources db)\<rparr>)"
    using okd notempty
    by (simp add: update_fields_outcome f(1) rows sel del: nullish.simps is_string.simps)
  show ?thesis
  proof (cases "update_name dto")
    case None
    then show ?thesis using ex fields by (simp add: update_with_def try_update_with_def)
  next
    case (Some v)
    with nm obtain s where s: "update_name dto = Some (JString s)"
      by (cases "update_name dto" rule: is_string.cases) auto
    with nrej have "trim s \<noteq> []" by auto
    then show ?thesis
      using ex fields s by (simp add: update_with_def try_update_with_def)
  qed
qed


lemma updated_row_fields:
  "rid (updated_row bind now dto r) = rid r"
  "createdAt (updated_row bind now dto r) = createdAt r"
  "updatedAt (updated_row bind now dto r) = now"
  "update_name dto = None \<Longrightarrow> name (updated_row bind now dto r) = name r"
  "update_name dto = Some (JString s) \<Longrightarrow> name (updated_row bind now dto r) = trim s"
  "update_description dto = None \<Longrightarrow> description (updated_row bind now dto r) = description r"
  "update_description dto = Some (JString d) \<Longrightarrow>
     description (updated_row bind now dto r) = (if trim d = [] then None else Some (trim d))"
  "update_description dto = Some JNull \<Longrightarrow> description (updated_row bind now dto r) = None"
  "update_status dto = None \<Longrightarrow> status (updated_row bind now dto r) = status r"
  "update_status dto = Some v \<Longrightarrow> \<not> isl (column_value bind v) \<Longrightarrow>
     column_value bind v = Inr (status (updated_row bind now dto r))"
  by (auto simp: updated_row_def split: sum.splits)

lemma update_with_spec:
  assumes ex: "select_by_id (resources db) i = Some existing"
      and run: "update_with bind db now (Some i) dto = (resp, db')"
  shows "(fst resp = 400) =
           ((update_name dto = None \<and> update_description dto = None \<and> update_status dto = None)
            \<or> (\<exists>s. update_name dto = Some (JString s) \<and> trim s = []))
       \<and> (fst resp = 500) =
           (\<not> ((update_name dto = None \<and> update_description dto = None
                 \<and> update_status dto = None)
                \<or> (\<exists>s. update_name dto = Some (JString s) \<and> trim s = []))
            \<and> ((update_name dto \<noteq> None \<and> \<not> is_string (update_name dto))
               \<or> (\<not> nullish (update_description dto) \<and> \<not> is_string (update_description dto))
               \<or> (\<exists>v. update_status dto = Some v \<and> isl (column_value bind v))))
       \<and> (fst resp = 400 \<or> fst resp = 500 \<or> fst resp = 200)
       \<and> (fst resp \<noteq> 200 \<longrightarrow> db' = db)
       \<and> sqlite_sequence db' = sqlite_sequence db
       \<and> length (resources db') = length (resources db)
       \<and> (\<forall>k < length (resources db).
             if rid (resources db ! k) = i
             then rid (resources db' ! k) = i
                \<and> createdAt (resources db' ! k) = createdAt (resources db ! k)
                \<and> (update_name dto = None \<longrightarrow>
                      name (resources db' ! k) = name (resources db ! k))
                \<and> (update_description dto = None \<longrightarrow>
                      description (resources db' ! k) = description (resources db ! k))
                \<and> (update_status dto = None \<longrightarrow>
                      status (resources db' ! k) = status (resources db ! k))
                \<and> (fst resp = 200 \<longrightarrow>
                      updatedAt (resources db' ! k) = now
                    \<and> (\<forall>s. update_name dto = Some (JString s) \<longrightarrow>
                          name (resources db' ! k) = trim s)
                    \<and> (\<forall>d. update_description dto = Some (JString d) \<longrightarrow>
                          description (resources db' ! k)
                            = (if trim d = [] then None else Some (trim d)))
                    \<and> (update_description dto = Some JNull \<longrightarrow>
                          description (resources db' ! k) = None)
                    \<and> (\<forall>v. update_status dto = Some v \<longrightarrow>
                          column_value bind v = Inr (status (resources db' ! k))))
             else resources db' ! k = resources db ! k)
       \<and> (fst resp = 200 \<longrightarrow>
             snd resp = DataBody ''Resource updated successfully''
                          (select_by_id (resources db') i)
           \<and> select_by_id (resources db') i \<noteq> None)"
proof -
  let ?rej = "(update_name dto = None \<and> update_description dto = None \<and> update_status dto = None)
            \<or> (\<exists>s. update_name dto = Some (JString s) \<and> trim s = [])"
  let ?bad = "(update_name dto \<noteq> None \<and> \<not> is_string (update_name dto))
               \<or> (\<not> nullish (update_description dto) \<and> \<not> is_string (update_description dto))
               \<or> (\<exists>v. update_status dto = Some v \<and> isl (column_value bind v))"
  consider (rejected) ?rej | (throws) "\<not> ?rej" ?bad | (updates) "\<not> ?rej" "\<not> ?bad"
    by blast
  then show ?thesis
  proof cases
    case rejected
    from update_resource_rejects [OF ex rejected, of bind now] run
    have "fst resp = 400" "db' = db" by simp_all
    with rejected show ?thesis by (simp del: is_string.simps nullish.simps)
  next
    case throws
    from update_resource_throws [OF ex throws, of now] run
    have "fst resp = 500" "db' = db" by simp_all
    with throws show ?thesis by (simp del: is_string.simps nullish.simps)
  next
    case updates
    from update_resource_updates [OF ex updates, of now] run
    have resp: "resp = (200, DataBody ''Resource updated successfully''
          (Some (updated_row bind now dto existing)))"
      and db': "db' = db\<lparr>resources := map (\<lambda>r. if rid r = i then updated_row bind now dto r else r)
                          (resources db)\<rparr>"
      by simp_all
    have sel: "select_by_id (resources db') i = Some (updated_row bind now dto existing)"
      using select_by_id_map [of "updated_row bind now dto" i "resources db"] ex
      by (simp add: db' updated_row_fields)
    have oks: "\<And>v. update_status dto = Some v \<Longrightarrow> \<not> isl (column_value bind v)"
      using updates(2) by blast
    have rows: "\<forall>k < length (resources db).
             if rid (resources db ! k) = i
             then rid (resources db' ! k) = i
                \<and> createdAt (resources db' ! k) = createdAt (resources db ! k)
                \<and> (update_name dto = None \<longrightarrow>
                      name (resources db' ! k) = name (resources db ! k))
                \<and> (update_description dto = None \<longrightarrow>
                      description (resources db' ! k) = description (resources db ! k))
                \<and> (update_status dto = None \<longrightarrow>
                      status (resources db' ! k) = status (resources db ! k))
                \<and> (fst resp = 200 \<longrightarrow>
                      updatedAt (resources db' ! k) = now
                    \<and> (\<forall>s. update_name dto = Some (JString s) \<longrightarrow>
                          name (resources db' ! k) = trim s)
                    \<and> (\<forall>d. update_description dto = Some (JString d) \<longrightarrow>
                          description (resources db' ! k)
                            = (if trim d = [] then None else Some (trim d)))
                    \<and> (update_description dto = Some JNull \<longrightarrow>
                          description (resources db' ! k) = None)
                    \<and> (\<forall>v. update_status dto = Some v \<longrightarrow>
                          column_value bind v = Inr (status (resources db' ! k))))
             else resources db' ! k = resources db ! k"
      using oks by (simp add: db' updated_row_fields)
    show ?thesis
      using updates rows sel
      by (simp add: resp db' del: is_string.simps nullish.simps)
  qed
qed

lemma update_resource_no_body:
  "nullish req_body \<Longrightarrow>
     update_resource bind db now parsed req_body = ((500, ErrorBody ''Internal server error''), db)"
  by (cases req_body rule: nullish.cases) (simp_all add: update_resource_def)

lemma update_resource_body:
  "v \<noteq> JNull \<Longrightarrow>
     update_resource bind db now parsed (Some v) = update_with bind db now parsed (update_dto v)"
  by (cases v) (simp_all add: update_resource_def update_with_def)

text \<open>
  Claim C9. \<open>PUT /api/resources/:id\<close> on an existing resource modifies only the fields
  present in the body and \<open>updatedAt\<close>: whatever the answer, the rows with another id are
  the same, and in a row with this id \<open>id\<close> and \<open>createdAt\<close> keep their values, as does each
  of \<open>name\<close>, \<open>description\<close>, \<open>status\<close> that the body does not have. If the body has none
  of the three, or a name that is a string trimming to the empty string, the answer is 400
  and the database is unchanged; these are the only cases of 400. The answer is 500, again
  with the database unchanged, exactly when otherwise the name is not a string, or the
  description is neither \<open>null\<close> nor a string, or the status cannot be bound; it is also
  500 when \<open>req.body\<close> itself is \<open>undefined\<close> or \<open>null\<close>. In every other case it is 200:
  \<open>updatedAt\<close> is the clock, a given name is stored trimmed, a given description trimmed
  or \<open>NULL\<close> (for \<open>null\<close> and for a blank string), a given status as the database binds
  it, and the body of the answer carries the row as updated.
\<close>

theorem update_resource_spec:
  assumes ex: "select_by_id (resources db) i = Some existing"
      and run: "update_resource bind db now (Some i) req_body = (resp, db')"
  shows "(nullish req_body \<longrightarrow> fst resp = 500 \<and> db' = db)
       \<and> (\<forall>b. req_body = Some b \<and> b \<noteq> JNull \<longrightarrow>
            (let dto = update_dto b in
                   (fst resp = 400) =
                   ((update_name dto = None \<and> update_description dto = None \<and> update_status dto = None)
                    \<or> (\<exists>s. update_name dto = Some (JString s) \<and> trim s = []))
               \<and> (fst resp = 500) =
                   (\<not> ((update_name dto = None \<and> update_description dto = None
                         \<and> update_status dto = None)
                        \<or> (\<exists>s. update_name dto = Some (JString s) \<and> trim s = []))
                    \<and> ((update_name dto \<noteq> None \<and> \<not> is_string (update_name dto))
                       \<or> (\<not> nullish (update_description dto) \<and> \<not> is_string (update_description dto))
                       \<or> (\<exists>v. update_status dto = Some v \<and> isl (column_value bind v))))
               \<and> (fst resp = 400 \<or> fst resp = 500 \<or> fst resp = 200)
               \<and> (fst resp \<noteq> 200 \<longrightarrow> db' = db)
               \<and> sqlite_sequence db' = sqlite_sequence db
               \<and> length (resources db') = length (resources db)
               \<and> (\<forall>k < length (resources db).
                     if rid (resources db ! k) = i
                     then rid (resources db' ! k) = i
                        \<and> createdAt (resources db' ! k) = createdAt (resources db ! k)
                        \<and> (update_name dto = None \<longrightarrow>
                              name (resources db' ! k) = name (resources db ! k))
                        \<and> (update_description dto = None \<longrightarrow>
                              description (resources db' ! k) = description (resources db ! k))
                        \<and> (update_status dto = None \<longrightarrow>
                              status (resources db' ! k) = status (resources db ! k))
                        \<and> (fst resp = 200 \<longrightarrow>
                              updatedAt (resources db' ! k) = now
                            \<and> (\<forall>s. update_name dto = Some (JString s) \<longrightarrow>
                                  name (resources db' ! k) = trim s)
                            \<and> (\<forall>d. update_description dto = Some (JString d) \<longrightarrow>
                                  description (resources db' ! k)
                                    = (if trim d = [] then None else Some (trim d)))
                            \<and> (update_description dto = Some JNull \<longrightarrow>
                                  description (resources db' ! k) = None)
                            \<and> (\<forall>v. update_status dto = Some v \<longrightarrow>
                                  column_value bind v = Inr (status (resources db' ! k))))
                     else resources db' ! k = resources db ! k)
               \<and> (fst resp = 200 \<longrightarrow>
                     snd resp = DataBody ''Resource updated successfully''
                                  (select_by_id (resources db') i)
                   \<and> select_by_id (resources db') i \<noteq> None)))"
proof (rule conjI)
  show "nullish req_body \<longrightarrow> fst resp = 500 \<and> db' = db"
    using update_resource_no_body [of req_body bind db now "Some i"] run by simp
next
  show "\<forall>b. req_body = Some b \<and> b \<noteq> JNull \<longrightarrow>
            (let dto = update_dto b in
                   (fst resp = 400) =
                   ((update_name dto = None \<and> update_description dto = None \<and> update_status dto = None)
                    \<or> (\<exists>s. update_name dto = Some (JString s) \<and> trim s = []))
               \<and> (fst resp = 500) =
                   (\<not> ((update_name dto = None \<and> update_description dto = None
                         \<and> update_status dto = None)
                        \<or> (\<exists>s. update_name dto = Some (JString s) \<and> trim s = []))
                    \<and> ((update_name dto \<noteq> None \<and> \<not> is_string (update_name dto))
                       \<or> (\<not> nullish (update_description dto) \<and> \<not> is_string (update_description dto))
                       \<or> (\<exists>v. update_status dto = Some v \<and> isl (column_value bind v))))
               \<and> (fst resp = 400 \<or> fst resp = 500 \<or> fst resp = 200)
               \<and> (fst resp \<noteq> 200 \<longrightarrow> db' = db)
               \<and> sqlite_sequence db' = sqlite_sequence db
               \<and> length (resources db') = length (resources db)
               \<and> (\<forall>k < length (resources db).
                     if rid (resources db ! k) = i
                     then rid (resources db' ! k) = i
                        \<and> createdAt (resources db' ! k) = createdAt (resources db ! k)
                        \<and> (update_name dto = None \<longrightarrow>
                              name (resources db' ! k) = name (resources db ! k))
                        \<and> (update_description dto = None \<longrightarrow>
                              description (resources db' ! k) = description (resources db ! k))
                        \<and> (update_status dto = None \<longrightarrow>
                              status (resources db' ! k) = status (resources db ! k))
                        \<and> (fst resp = 200 \<longrightarrow>
                              updatedAt (resources db' ! k) = now
                            \<and> (\<forall>s. update_name dto = Some (JString s) \<longrightarrow>
                                  name (resources db' ! k) = trim s)
                            \<and> (\<forall>d. update_description dto = Some (JString d) \<longrightarrow>
                                  description (resources db' ! k)
                                    = (if trim d = [] then None else Some (trim d)))
                            \<and> (update_description dto = Some JNull \<longrightarrow>
                                  description (resources db' ! k) = None)
                            \<and> (\<forall>v. update_status dto = Some v \<longrightarrow>
                                  column_value bind v = Inr (status (resources db' ! k))))
                     else resources db' ! k = resources db ! k)
               \<and> (fst resp = 200 \<longrightarrow>
                     snd resp = DataBody ''Resource updated successfully''
                                  (select_by_id (resources db') i)
                   \<and> select_by_id (resources db') i \<noteq> None))"
  proof (intro allI impI)
  fix b
  assume "req_body = Some b \<and> b \<noteq> JNull"
  with update_resource_body [of b bind db now "Some i"] run
  have "update_with bind db now (Some i) (update_dto b) = (resp, db')" by simp
  from update_with_spec [OF ex this]
  show "let dto = update_dto b in
                   (fst resp = 400) =
                   ((update_name dto = None \<and> update_description dto = None \<and> update_status dto = None)
                    \<or> (\<exists>s. update_name dto = Some (JString s) \<and> trim s = []))
               \<and> (fst resp = 500) =
                   (\<not> ((update_name dto = None \<and> update_description dto = None
                         \<and> update_status dto = None)
                        \<or> (\<exists>s. update_name dto = Some (JString s) \<and> trim s = []))
                    \<and> ((update_name dto \<noteq> None \<and> \<not> is_string (update_name dto))
                       \<or> (\<not> nullish (update_description dto) \<and> \<not> is_string (update_description dto))
                       \<or> (\<exists>v. update_status dto = Some v \<and> isl (column_value bind v))))
               \<and> (fst resp = 400 \<or> fst resp = 500 \<or> fst resp = 200)
               \<and> (fst resp \<noteq> 200 \<longrightarrow> db' = db)
               \<and> sqlite_sequence db' = sqlite_sequence db
               \<and> length (resources db') = length (resources db)
               \<and> (\<forall>k < length (resources db).
                     if rid (resources db ! k) = i
                     then rid (resources db' ! k) = i
                        \<and> createdAt (resources db' ! k) = createdAt (resources db ! k)
                        \<and> (update_name dto = None \<longrightarrow>
                              name (resources db' ! k) = name (resources db ! k))
                        \<and> (update_description dto = None \<longrightarrow>
                              description (resources db' ! k) = description (resources db ! k))
                        \<and> (update_status dto = None \<longrightarrow>
                              status (resources db' ! k) = status (resources db ! k))
                        \<and> (fst resp = 200 \<longrightarrow>
                              updatedAt (resources db' ! k) = now
                            \<and> (\<forall>s. update_name dto = Some (JString s) \<longrightarrow>
                                  name (resources db' ! k) = trim s)
                            \<and> (\<forall>d. update_description dto = Some (JString d) \<longrightarrow>
                                  description (resources db' ! k)
                                    = (if trim d = [] then None else Some (trim d)))
                            \<and> (update_description dto = Some JNull \<longrightarrow>
                                  description (resources db' ! k) = None)
                            \<and> (\<forall>v. update_status dto = Some v \<longrightarrow>
                                  column_value bind v = Inr (status (resources db' ! k))))
                     else resources db' ! k = resources db ! k)
               \<and> (fst resp = 200 \<longrightarrow>
                     snd resp = DataBody ''Resource updated successfully''
                                  (select_by_id (resources db') i)
                   \<and> select_by_id (resources db') i \<noteq> None)"
    unfolding Let_def .
  qed
qed

theorem update_resource_spec_witness:
  "select_by_id
     [\<lparr>rid = 1, name = ''first'', description = None, status = Some ''active'',
        createdAt = ''2024-01-01 12:00:00'', updatedAt = ''2024-01-01 12:00:00''\<rparr>,
      \<lparr>rid = 2, name = ''second'', description = Some ''old text'', status = Some ''active'',
        createdAt = ''2024-01-01 12:00:30'', updatedAt = ''2024-01-01 12:00:30''\<rparr>] 2
     = Some \<lparr>rid = 2, name = ''second'', description = Some ''old text'',
        status = Some ''active'',
        createdAt = ''2024-01-01 12:00:30'', updatedAt = ''2024-01-01 12:00:30''\<rparr>
   \<and> update_resource Map.empty
       \<lparr>resources =
         [\<lparr>rid = 1, name = ''first'', description = None, status = Some ''active'',
            createdAt = ''2024-01-01 12:00:00'', updatedAt = ''2024-01-01 12:00:00''\<rparr>,
          \<lparr>rid = 2, name = ''second'', description = Some ''old text'',
            status = Some ''active'',
            createdAt = ''2024-01-01 12:00:30'', updatedAt = ''2024-01-01 12:00:30''\<rparr>],
        sqlite_sequence = 2\<rparr>
       ''2024-01-01 12:01:00'' (Some 2)
       (Some (JObject [(''description'', JNull), (''status'', JString ''inactive'')]))
     = ((200, DataBody ''Resource updated successfully''
          (Some \<lparr>rid = 2, name = ''second'', description = None, status = Some ''inactive'',
             createdAt = ''2024-01-01 12:00:30'', updatedAt = ''2024-01-01 12:01:00''\<rparr>)),
        \<lparr>resources =
         [\<lparr>rid = 1, name = ''first'', description = None, status = Some ''active'',
            createdAt = ''2024-01-01 12:00:00'', updatedAt = ''2024-01-01 12:00:00''\<rparr>,
          \<lparr>rid = 2, name = ''second'', description = None, status = Some ''inactive'',
            createdAt = ''2024-01-01 12:00:30'', updatedAt = ''2024-01-01 12:01:00''\<rparr>],
        sqlite_sequence = 2\<rparr>)"
proof -
  let ?r1 = "\<lparr>rid = 1, name = ''first'', description = None, status = Some ''active'',
        createdAt = ''2024-01-01 12:00:00'', updatedAt = ''2024-01-01 12:00:00''\<rparr>"
  let ?r2 = "\<lparr>rid = 2, name = ''second'', description = Some ''old text'',
        status = Some ''active'',
        createdAt = ''2024-01-01 12:00:30'', updatedAt = ''2024-01-01 12:00:30''\<rparr>"
  let ?db = "\<lparr>resources = [?r1, ?r2], sqlite_sequence = 2\<rparr>"
  let ?body = "Some (JObject [(''description'', JNull), (''status'', JString ''inactive'')])"
  have ex: "select_by_id (resources ?db) 2 = Some ?r2"
    by (simp add: select_by_id_def)
  have run: "update_resource Map.empty ?db ''2024-01-01 12:01:00'' (Some 2) ?body
     = ((200, DataBody ''Resource updated successfully''
          (Some \<lparr>rid = 2, name = ''second'', description = None, status = Some ''inactive'',
             createdAt = ''2024-01-01 12:00:30'', updatedAt = ''2024-01-01 12:01:00''\<rparr>)),
        \<lparr>resources =
         [?r1,
          \<lparr>rid = 2, name = ''second'', description = None, status = Some ''inactive'',
            createdAt = ''2024-01-01 12:00:30'', updatedAt = ''2024-01-01 12:01:00''\<rparr>],
        sqlite_sequence = 2\<rparr>)"
    by (simp add: handler_defs)
  from update_resource_spec [OF ex run] show ?thesis
    using ex by - (simp, rule run [simplified])
qed

section \<open>Problem 6: the scoreboard update pipeline\<close>

text \<open>
  The repository describes the scoreboard service in a design document only; no function of
  it is implemented. The definitions of this section therefore follow the specification of
  the update pipeline (its sections 3, 4 and 7) step by step: validation of the
  preconditions, the rate check, the idempotency check with its commit, the atomic
  increment, the notification of the leaderboard cache, the broadcast and the returned
  pair. Time is explicit: every submission carries the instant at which it is made. The
  store transaction is taken to complete; a failing store (\<open>InternalError\<close>) is outside the
  model.
\<close>

text \<open>Modelled from the spec: the error taxonomy of section 7 (no implementation exists).\<close>

datatype failure = ValidationError | DuplicateAction | RateLimited | NotFound | InternalError

text \<open>
  Modelled from the spec: the entity \<open>ScoreRecord\<close> of section 3, one row per user (no
  implementation exists). Its key \<open>userId\<close> is the field \<open>s_userId\<close>.
\<close>

record ScoreRecord =
  s_userId :: string
  score :: int
  lastUpdated :: nat

text \<open>
  Modelled from the spec: the entity \<open>ActionRecord\<close> of section 3 (no implementation
  exists). A submission is the record that it would commit: the four arguments of
  \<open>submitAction\<close> and the time of the call.
\<close>

record ActionRecord =
  userId :: string
  actionId :: string
  actionType :: string
  increment :: int
  timestamp :: nat

text \<open>
  Modelled from the spec: the delta event that step 5 publishes, carrying the committed
  user, new score and rank (no implementation exists).
\<close>

datatype event = scoreboard_update string int nat

text \<open>
  Modelled from the spec: the components that the pipeline calls (sections 4.1 to 4.4):
  the configuration map from action type to maximal increment, the rate limiter's
  \<open>allow\<close> (which may advance its own state: the type \<open>'l\<close>), the cache's \<open>notify\<close> (on the
  cache state \<open>'c\<close>) and the hub's \<open>publish\<close> (on the hub state \<open>'h\<close>). The pipeline is
  written over any such components; none of them is implemented in the repository.
\<close>

record ('l, 'c, 'h) collaborators =
  maxIncrement :: "string \<Rightarrow> int option"
  allow :: "string \<Rightarrow> nat \<Rightarrow> 'l \<Rightarrow> bool \<times> 'l"
  notify :: "string \<Rightarrow> int \<Rightarrow> 'c \<Rightarrow> 'c"
  publish :: "event \<Rightarrow> 'h \<Rightarrow> 'h"

text \<open>
  Modelled from the spec: the state that the pipeline reads and writes, namely the
  ScoreRecord set, the ActionRecord set and the states of the limiter, the cache and the
  hub (no implementation exists).
\<close>

record ('l, 'c, 'h) system =
  scores :: "ScoreRecord list"
  actions :: "ActionRecord list"
  limiter :: 'l
  cache :: 'c
  hub :: 'h

text \<open>
  Modelled from the spec: the precondition of \<open>submitAction\<close> (section 4.1), whose failure
  is \<open>ValidationError\<close> (section 7): the action type is known and the increment is positive
  and at most the maximum of its type. The validating code is missing.
\<close>

definition validAction :: "(string \<Rightarrow> int option) \<Rightarrow> ActionRecord \<Rightarrow> bool" where
  "validAction limits a =
     (case limits (actionType a) of None \<Rightarrow> False
      | Some m \<Rightarrow> 0 < increment a \<and> increment a \<le> m)"

text \<open>
  Modelled from the spec: the uniqueness constraint on \<open>(userId, actionId)\<close> and the store
  primitive \<open>insertIfAbsent\<close> of sections 4.5 and 6; the ledger code is missing.
\<close>

definition priorRecord :: "ActionRecord list \<Rightarrow> ActionRecord \<Rightarrow> ActionRecord option" where
  "priorRecord ledger a =
     find (\<lambda>b. userId b = userId a \<and> actionId b = actionId a) ledger"

definition insertIfAbsent :: "ActionRecord \<Rightarrow> ActionRecord list \<Rightarrow> bool \<times> ActionRecord list" where
  "insertIfAbsent a ledger =
     (case priorRecord ledger a of None \<Rightarrow> (True, ledger @ [a]) | Some b \<Rightarrow> (False, ledger))"

text \<open>
  Modelled from the spec: reading a user's row and score. A user without a row has made no
  accepted action; the first one creates the row with \<open>score = increment\<close> (section 3), so
  the score of such a user reads as 0. The store code is missing.
\<close>

definition scoreRow :: "ScoreRecord list \<Rightarrow> string \<Rightarrow> ScoreRecord option" where
  "scoreRow rows u = find (\<lambda>r. s_userId r = u) rows"

definition scoreOf :: "ScoreRecord list \<Rightarrow> string \<Rightarrow> int" where
  "scoreOf rows u = (case scoreRow rows u of None \<Rightarrow> 0 | Some r \<Rightarrow> score r)"

text \<open>
  Modelled from the spec: the store primitive \<open>atomicIncrement\<close> of sections 4.1 (step 3)
  and 6, \<open>score = score + increment\<close> with \<open>lastUpdated\<close> set, creating the row on the first
  accepted action. It returns the row as committed and the new rows. The store code is
  missing.
\<close>

definition atomicIncrement ::
  "string \<Rightarrow> int \<Rightarrow> nat \<Rightarrow> ScoreRecord list \<Rightarrow> ScoreRecord \<times> ScoreRecord list" where
  "atomicIncrement u delta now rows =
     (case scoreRow rows u of
        None \<Rightarrow>
          (let r' = \<lparr>s_userId = u, score = delta, lastUpdated = now\<rparr> in (r', rows @ [r']))
      | Some r \<Rightarrow>
          (r\<lparr>score := score r + delta, lastUpdated := now\<rparr>,
           map (\<lambda>x. if s_userId x = u
                     then x\<lparr>score := score x + delta, lastUpdated := now\<rparr> else x) rows))"

text \<open>
  Modelled from the spec: the rank order of section 3 (score descending, ties broken by
  the earlier \<open>lastUpdated\<close>) and the direct store-side rank of step 6, one more than the
  number of rows ahead; a cache refreshed after the commit holds the same rank. The ranking
  code is missing.
\<close>

definition outranks :: "ScoreRecord \<Rightarrow> ScoreRecord \<Rightarrow> bool" where
  "outranks x r = (score r < score x \<or> (score x = score r \<and> lastUpdated x < lastUpdated r))"

definition rankAmong :: "ScoreRecord list \<Rightarrow> ScoreRecord \<Rightarrow> nat" where
  "rankAmong rows r = Suc (length (filter (\<lambda>x. outranks x r) rows))"

text \<open>
  Modelled from the spec: \<open>submitAction\<close> of section 4.1, the operation itself being
  unimplemented. The preconditions are checked first (a \<open>ValidationError\<close> is detected
  before any mutation, section 7); step 1 asks the limiter, which may advance its counter,
  and fails with \<open>RateLimited\<close>; step 2 inserts the ActionRecord unless one exists for
  the pair, failing with \<open>DuplicateAction\<close>; step 3 increments; step 4 notifies the cache;
  step 5 publishes; step 6 returns the new score and the rank.
\<close>

definition submitAction ::
  "('l, 'c, 'h) collaborators \<Rightarrow> ActionRecord \<Rightarrow> ('l, 'c, 'h) system
     \<Rightarrow> (failure + int \<times> nat) \<times> ('l, 'c, 'h) system" where
  "submitAction env a s =
     (if \<not> validAction (maxIncrement env) a then (Inl ValidationError, s)
      else
        (let (allowed, limiter') = allow env (userId a) (timestamp a) (limiter s);
             s1 = s\<lparr>limiter := limiter'\<rparr>
         in if \<not> allowed then (Inl RateLimited, s1)
            else
              (let (accepted, actions') = insertIfAbsent a (actions s1)
               in if \<not> accepted then (Inl DuplicateAction, s1)
                  else
                    (let (row, scores') =
                           atomicIncrement (userId a) (increment a) (timestamp a) (scores s1);
                         newScore = score row;
                         cache' = notify env (userId a) newScore (cache s1);
                         rank = rankAmong scores' row;
                         hub' = publish env (scoreboard_update (userId a) newScore rank) (hub s1)
                     in (Inr (newScore, rank),
                         s1\<lparr>actions := actions', scores := scores',
                            cache := cache', hub := hub'\<rparr>)))))"

text \<open>
  Modelled from the spec: the rate limiter of section 4.4 as a fixed window counter keyed
  by \<open>(userId, windowBucket)\<close>, with window size \<open>W\<close> and maximal count \<open>M\<close>; a call that is
  allowed advances the counter. For \<open>W = 0\<close> the quotient is 0 and all calls share one
  bucket. The limiter code is missing.
\<close>

definition windowAllow ::
  "nat \<Rightarrow> nat \<Rightarrow> string \<Rightarrow> nat \<Rightarrow> (string \<times> nat \<Rightarrow> nat) \<Rightarrow> bool \<times> (string \<times> nat \<Rightarrow> nat)" where
  "windowAllow W M u now counters =
     (let k = (u, now div W)
      in if counters k < M then (True, counters(k := Suc (counters k))) else (False, counters))"

text \<open>
  Modelled from the spec: the leaderboard cache of section 4.2 (the cached sequence, its
  generation time and whether it was marked stale) and its operation \<open>notify\<close>, which marks
  the cache stale when the new score exceeds the cached K-th score or the user is in the
  cached set. The cache code is missing.
\<close>

record LeaderboardCache =
  entries :: "(string \<times> int) list"
  generatedAt :: nat
  stale :: bool

definition cacheNotify :: "nat \<Rightarrow> string \<Rightarrow> int \<Rightarrow> LeaderboardCache \<Rightarrow> LeaderboardCache" where
  "cacheNotify K u newScore c =
     (if (0 < K \<and> (case drop (K - 1) (entries c) of [] \<Rightarrow> False | e # _ \<Rightarrow> snd e < newScore))
         \<or> u \<in> fst ` set (entries c)
      then c\<lparr>stale := True\<rparr> else c)"

text \<open>
  Modelled from the spec: the subscribers of the broadcast hub (connection handle, creation
  time) with their bounded queues, and \<open>publish\<close> of section 4.3: the event is appended to every queue, and a full queue
  drops its oldest event first. The hub code is missing.
\<close>

record Subscriber =
  handle :: nat
  creationTime :: nat
  queue :: "event list"

definition hubPublish :: "nat \<Rightarrow> event \<Rightarrow> Subscriber list \<Rightarrow> Subscriber list" where
  "hubPublish bound e subscribers =
     map (\<lambda>sb. sb\<lparr>queue := (if length (queue sb) < bound then queue sb
                               else drop 1 (queue sb)) @ [e]\<rparr>) subscribers"

text \<open>Modelled from the spec: a sequence of submissions, run in order (no implementation exists).\<close>

fun submitAll ::
  "('l, 'c, 'h) collaborators \<Rightarrow> ActionRecord list \<Rightarrow> ('l, 'c, 'h) system \<Rightarrow> ('l, 'c, 'h) system" where
  "submitAll env [] s = s"
| "submitAll env (a # as) s = submitAll env as (snd (submitAction env a s))"

text \<open>
  Modelled from the spec: the configuration and the empty board of the scenarios of
  section 8, with a limit of \<open>M\<close> submissions per minute, and a \<open>login\<close> submission of
  user \<open>U\<close> worth 10 points (no implementation exists).
\<close>

abbreviation scenario_env ::
  "nat \<Rightarrow> (string \<times> nat \<Rightarrow> nat, LeaderboardCache, Subscriber list) collaborators" where
  "scenario_env M \<equiv>
     \<lparr>maxIncrement = [''login'' \<mapsto> 10], allow = windowAllow 60 M,
      notify = cacheNotify 10, publish = hubPublish 8\<rparr>"

abbreviation empty_board ::
  "(string \<times> nat \<Rightarrow> nat, LeaderboardCache, Subscriber list) system" where
  "empty_board \<equiv>
     \<lparr>scores = [], actions = [], limiter = (\<lambda>k. 0),
      cache = \<lparr>entries = [], generatedAt = 0, stale = False\<rparr>, hub = []\<rparr>"

abbreviation login :: "string \<Rightarrow> nat \<Rightarrow> ActionRecord" where
  "login a t \<equiv>
     \<lparr>userId = ''U'', actionId = a, actionType = ''login'', increment = 10, timestamp = t\<rparr>"

text \<open>
  Modelled from the spec: the board of scenario 1 of section 8 after the first accepted
  \<open>login\<close> of \<open>U\<close>: one score row, one action record, one counted call (no
  implementation exists).
\<close>

abbreviation after_first ::
  "(string \<times> nat \<Rightarrow> nat, LeaderboardCache, Subscriber list) system" where
  "after_first \<equiv>
     \<lparr>scores = [\<lparr>s_userId = ''U'', score = 10, lastUpdated = 0\<rparr>],
      actions = [login ''a1'' 0], limiter = (\<lambda>k. 0)((''U'', 0) := Suc 0),
      cache = \<lparr>entries = [], generatedAt = 0, stale = False\<rparr>, hub = []\<rparr>"

subsection \<open>The effect of one submission\<close>

lemmas pipeline_defs = submitAction_def validAction_def windowAllow_def insertIfAbsent_def
      priorRecord_def atomicIncrement_def scoreRow_def rankAmong_def outranks_def
      cacheNotify_def hubPublish_def Let_def

lemma scoreRow_append:
  "scoreRow (rows @ [r]) u = (case scoreRow rows u of Some x \<Rightarrow> Some x
      | None \<Rightarrow> if s_userId r = u then Some r else None)"
  by (induction rows) (auto simp: scoreRow_def)

lemma scoreRow_map_bump:
  "scoreRow (map (\<lambda>x. if s_userId x = u then x\<lparr>score := score x + d, lastUpdated := t\<rparr> else x) rows) v
    = map_option (\<lambda>x. if s_userId x = u then x\<lparr>score := score x + d, lastUpdated := t\<rparr> else x)
        (scoreRow rows v)"
  by (induction rows) (auto simp: scoreRow_def)

lemma scoreRow_userId: "scoreRow rows u = Some r \<Longrightarrow> s_userId r = u"
  by (auto simp: scoreRow_def dest: find_Some_iff [THEN iffD1])

lemma scoreOf_atomicIncrement:
  "scoreOf (snd (atomicIncrement u d t rows)) v = scoreOf rows v + (if v = u then d else 0)"
proof (cases "scoreRow rows u")
  case None
  then show ?thesis
    by (auto simp: atomicIncrement_def scoreOf_def scoreRow_append Let_def split: option.splits)
next
  case (Some r)
  then show ?thesis
    by (auto simp: atomicIncrement_def scoreOf_def scoreRow_map_bump
        dest: scoreRow_userId split: option.splits)
qed

lemma score_atomicIncrement: "score (fst (atomicIncrement u d t rows)) = scoreOf rows u + d"
  by (auto simp: atomicIncrement_def scoreOf_def Let_def split: option.splits)

lemma submitAction_cases:
  obtains (invalid) "\<not> validAction (maxIncrement env) a"
      "submitAction env a s = (Inl ValidationError, s)"
  | (limited) "validAction (maxIncrement env) a" "\<not> fst (allow env (userId a) (timestamp a) (limiter s))"
      "submitAction env a s =
         (Inl RateLimited, s\<lparr>limiter := snd (allow env (userId a) (timestamp a) (limiter s))\<rparr>)"
  | (duplicate) b where "validAction (maxIncrement env) a"
      "fst (allow env (userId a) (timestamp a) (limiter s))"
      "priorRecord (actions s) a = Some b"
      "submitAction env a s =
         (Inl DuplicateAction, s\<lparr>limiter := snd (allow env (userId a) (timestamp a) (limiter s))\<rparr>)"
  | (accepted) "validAction (maxIncrement env) a"
      "fst (allow env (userId a) (timestamp a) (limiter s))"
      "priorRecord (actions s) a = None"
      "fst (submitAction env a s) =
         Inr (scoreOf (scores s) (userId a) + increment a,
              rankAmong (snd (atomicIncrement (userId a) (increment a) (timestamp a) (scores s)))
                (fst (atomicIncrement (userId a) (increment a) (timestamp a) (scores s))))"
      "scores (snd (submitAction env a s)) =
         snd (atomicIncrement (userId a) (increment a) (timestamp a) (scores s))"
      "actions (snd (submitAction env a s)) = actions s @ [a]"
proof (cases "validAction (maxIncrement env) a")
  case False
  then show ?thesis by (intro invalid) (simp_all add: submitAction_def)
next
  case valid: True
  show ?thesis
  proof (cases "fst (allow env (userId a) (timestamp a) (limiter s))")
    case False
    with valid show ?thesis
      by (intro limited) (simp_all add: submitAction_def split_beta Let_def)
  next
    case ok: True
    show ?thesis
    proof (cases "priorRecord (actions s) a")
      case (Some b)
      with valid ok show ?thesis
        by (intro duplicate [of b])
           (simp_all add: submitAction_def insertIfAbsent_def split_beta Let_def)
    next
      case None
      with valid ok show ?thesis
        by (intro accepted)
           (simp_all add: submitAction_def insertIfAbsent_def split_beta Let_def
              score_atomicIncrement)
    qed
  qed
qed

lemma validAction_positive: "validAction limits a \<Longrightarrow> 0 < increment a"
  by (auto simp: validAction_def split: option.splits)

lemma submitAction_scoreOf:
  "scoreOf (scores (snd (submitAction env a s))) v =
     scoreOf (scores s) v +
       (if isl (fst (submitAction env a s)) \<or> v \<noteq> userId a then 0 else increment a)"
  by (cases env a s rule: submitAction_cases) (simp_all add: scoreOf_atomicIncrement)

lemma submitAction_accepted_positive:
  "\<not> isl (fst (submitAction env a s)) \<Longrightarrow> 0 < increment a"
  by (cases env a s rule: submitAction_cases) (simp_all add: validAction_positive)

lemma submitAction_monotone:
  "scoreOf (scores s) v \<le> scoreOf (scores (snd (submitAction env a s))) v"
  using submitAction_accepted_positive [of env a s]
  by (auto simp: submitAction_scoreOf)

subsection \<open>Scores never decrease\<close>

text \<open>
  Claim C3. A user's score is monotonically non-decreasing: one submission never lowers
  the score of any user, nor does any sequence of submissions; a rejected submission
  leaves every score as it was, and an accepted one strictly raises the score of its
  user (its increment is positive).
\<close>

theorem score_never_decreases:
  "scoreOf (scores s) v \<le> scoreOf (scores (snd (submitAction env a s))) v
   \<and> scoreOf (scores s) v \<le> scoreOf (scores (submitAll env as s)) v
   \<and> (if isl (fst (submitAction env a s))
      then scores (snd (submitAction env a s)) = scores s
      else scoreOf (scores s) (userId a)
             < scoreOf (scores (snd (submitAction env a s))) (userId a))"
proof -
  have many: "scoreOf (scores s) v \<le> scoreOf (scores (submitAll env as s)) v"
  proof (induction as arbitrary: s)
    case Nil
    show ?case by simp
  next
    case (Cons a as)
    have "scoreOf (scores s) v \<le> scoreOf (scores (snd (submitAction env a s))) v"
      by (rule submitAction_monotone)
    also have "\<dots> \<le> scoreOf (scores (submitAll env as (snd (submitAction env a s)))) v"
      by (rule Cons.IH)
    finally show ?case by simp
  qed
  have rejected: "isl (fst (submitAction env a s)) \<Longrightarrow> scores (snd (submitAction env a s)) = scores s"
    by (cases env a s rule: submitAction_cases) simp_all
  have strict: "\<not> isl (fst (submitAction env a s)) \<Longrightarrow>
      scoreOf (scores s) (userId a) < scoreOf (scores (snd (submitAction env a s))) (userId a)"
    using submitAction_accepted_positive [of env a s] by (simp add: submitAction_scoreOf)
  show ?thesis
    using many submitAction_monotone [of s v env a] rejected strict by simp
qed

theorem score_never_decreases_witness:
  "scoreOf (scores (empty_board
       :: (string \<times> nat \<Rightarrow> nat, LeaderboardCache, Subscriber list) system)) ''U''
     < scoreOf (scores (snd (submitAction (scenario_env 100) (login ''a1'' 0) empty_board))) ''U''
   \<and> scoreOf (scores (empty_board
       :: (string \<times> nat \<Rightarrow> nat, LeaderboardCache, Subscriber list) system)) ''U''
     \<le> scoreOf (scores (submitAll (scenario_env 100) [login ''a1'' 0, login ''a1'' 7] empty_board))
         ''U''"
proof -
  have first: "submitAction (scenario_env 100) (login ''a1'' 0) empty_board
      = (Inr (10, 1), after_first)"
    by (simp add: pipeline_defs)
  from score_never_decreases [of empty_board "''U''" "scenario_env 100" "login ''a1'' 0"
      "[login ''a1'' 0, login ''a1'' 7]"]
  show ?thesis using first by simp
qed

subsection \<open>Submitting the same action twice\<close>

lemma priorRecord_append:
  "priorRecord (ledger @ [c]) b =
     (case priorRecord ledger b of
        Some x \<Rightarrow> Some x
      | None \<Rightarrow> if userId c = userId b \<and> actionId c = actionId b then Some c else None)"
  by (induction ledger) (auto simp: priorRecord_def)

lemma priorRecord_kept:
  "priorRecord (actions s) b \<noteq> None \<Longrightarrow>
     priorRecord (actions (snd (submitAction env c s))) b \<noteq> None"
  by (cases env c s rule: submitAction_cases) (auto simp: priorRecord_append)

lemma priorRecord_kept_all:
  "priorRecord (actions s) b \<noteq> None \<Longrightarrow> priorRecord (actions (submitAll env cs s)) b \<noteq> None"
proof (induction cs arbitrary: s)
  case Nil
  then show ?case by simp
next
  case (Cons c cs)
  from Cons.prems have "priorRecord (actions (snd (submitAction env c s))) b \<noteq> None"
    by (rule priorRecord_kept)
  then show ?case using Cons.IH by simp
qed

lemma submitAction_known_pair:
  assumes "priorRecord (actions s) b \<noteq> None"
  shows "fst (submitAction env b s) =
           (if \<not> validAction (maxIncrement env) b then Inl ValidationError
            else if \<not> fst (allow env (userId b) (timestamp b) (limiter s)) then Inl RateLimited
            else Inl DuplicateAction)
       \<and> scores (snd (submitAction env b s)) = scores s
       \<and> actions (snd (submitAction env b s)) = actions s
       \<and> cache (snd (submitAction env b s)) = cache s
       \<and> hub (snd (submitAction env b s)) = hub s"
  using assms by (cases env b s rule: submitAction_cases) simp_all

text \<open>
  Claim C1, as stated: for every user and action id, submitting the pair twice yields one
  accepted call and one \<open>DuplicateAction\<close>. With a limit of one submission per minute and
  the quota used by the accepted \<open>(U, a1)\<close>, the fresh pair \<open>(U, a2)\<close> is submitted twice and
  both calls fail with \<open>RateLimited\<close>, leaving the board as it was: no call is accepted and
  none is a \<open>DuplicateAction\<close>. Likewise both submissions of a pair whose increment
  exceeds the maximum of its type fail with \<open>ValidationError\<close>.
\<close>

theorem resubmission_counterexample:
  "submitAction (scenario_env 1) (login ''a1'' 0) empty_board = (Inr (10, 1), after_first)
   \<and> submitAction (scenario_env 1) (login ''a2'' 2) after_first = (Inl RateLimited, after_first)
   \<and> submitAction (scenario_env 1) (login ''a2'' 3) after_first = (Inl RateLimited, after_first)
   \<and> submitAction (scenario_env 1)
        \<lparr>userId = ''U'', actionId = ''a3'', actionType = ''login'', increment = 11, timestamp = 4\<rparr>
        empty_board = (Inl ValidationError, empty_board)
   \<and> submitAction (scenario_env 1)
        \<lparr>userId = ''U'', actionId = ''a3'', actionType = ''login'', increment = 11, timestamp = 5\<rparr>
        empty_board = (Inl ValidationError, empty_board)"
  by (simp add: pipeline_defs)

text \<open>
  Claim C1, amended. If the first submission of \<open>(U, A)\<close> is valid, the pair is not yet in
  the ledger and the rate limiter admits the call, then that call is accepted and raises
  the score of \<open>U\<close> by its positive increment. Any later submission with the same user and
  action id, whatever its type, increment and time and whatever was submitted in between,
  is not accepted: it fails with \<open>DuplicateAction\<close> when it is valid and the rate limiter
  admits it (with \<open>ValidationError\<close> or \<open>RateLimited\<close> otherwise, the earlier checks), and
  it mutates no score and no ActionRecord and reaches neither the cache nor the hub. So
  the two submissions yield one accepted call and one \<open>DuplicateAction\<close>, and the score
  changes exactly once.
\<close>

theorem submitted_twice:
  assumes valid: "validAction (maxIncrement env) a"
      and fresh: "priorRecord (actions s0) a = None"
      and admitted: "fst (allow env (userId a) (timestamp a) (limiter s0))"
      and same_user: "userId b = userId a"
      and same_action: "actionId b = actionId a"
  shows "(\<exists>rank. fst (submitAction env a s0)
                    = Inr (scoreOf (scores s0) (userId a) + increment a, rank))
       \<and> scoreOf (scores (snd (submitAction env a s0))) (userId a)
           = scoreOf (scores s0) (userId a) + increment a
       \<and> 0 < increment a
       \<and> fst (submitAction env b (submitAll env others (snd (submitAction env a s0)))) =
           (if \<not> validAction (maxIncrement env) b then Inl ValidationError
            else if \<not> fst (allow env (userId b) (timestamp b)
                            (limiter (submitAll env others (snd (submitAction env a s0)))))
            then Inl RateLimited
            else Inl DuplicateAction)
       \<and> scores (snd (submitAction env b (submitAll env others (snd (submitAction env a s0)))))
           = scores (submitAll env others (snd (submitAction env a s0)))
       \<and> actions (snd (submitAction env b (submitAll env others (snd (submitAction env a s0)))))
           = actions (submitAll env others (snd (submitAction env a s0)))
       \<and> cache (snd (submitAction env b (submitAll env others (snd (submitAction env a s0)))))
           = cache (submitAll env others (snd (submitAction env a s0)))
       \<and> hub (snd (submitAction env b (submitAll env others (snd (submitAction env a s0)))))
           = hub (submitAll env others (snd (submitAction env a s0)))"
proof -
  let ?s1 = "snd (submitAction env a s0)"
  let ?s2 = "submitAll env others ?s1"
  have first: "\<exists>rank. fst (submitAction env a s0)
                    = Inr (scoreOf (scores s0) (userId a) + increment a, rank)"
    and led: "actions ?s1 = actions s0 @ [a]"
    using valid fresh admitted by (cases env a s0 rule: submitAction_cases; simp)+
  from first have acc: "\<not> isl (fst (submitAction env a s0))" by auto
  have sc: "scoreOf (scores ?s1) (userId a) = scoreOf (scores s0) (userId a) + increment a"
    using acc by (simp add: submitAction_scoreOf)
  have "priorRecord (actions ?s1) b \<noteq> None"
    using same_user same_action by (simp add: led priorRecord_append split: option.splits)
  then have known: "priorRecord (actions ?s2) b \<noteq> None"
    by (rule priorRecord_kept_all)
  show ?thesis
    using first sc validAction_positive [OF valid] submitAction_known_pair [OF known, of env]
    by simp
qed

theorem submitted_twice_witness:
  "validAction (maxIncrement (scenario_env 100)) (login ''a1'' 0)
   \<and> priorRecord (actions (empty_board
         :: (string \<times> nat \<Rightarrow> nat, LeaderboardCache, Subscriber list) system)) (login ''a1'' 0) = None
   \<and> fst (allow (scenario_env 100) ''U'' 0 (limiter (empty_board
         :: (string \<times> nat \<Rightarrow> nat, LeaderboardCache, Subscriber list) system)))
   \<and> submitAction (scenario_env 100) (login ''a1'' 0) empty_board = (Inr (10, 1), after_first)
   \<and> fst (submitAction (scenario_env 100)
             \<lparr>userId = ''U'', actionId = ''a1'', actionType = ''login'', increment = 5,
               timestamp = 7\<rparr> after_first) = Inl DuplicateAction"
proof -
  have valid: "validAction (maxIncrement (scenario_env 100)) (login ''a1'' 0)"
    by (simp add: validAction_def)
  have fresh: "priorRecord (actions (empty_board
         :: (string \<times> nat \<Rightarrow> nat, LeaderboardCache, Subscriber list) system)) (login ''a1'' 0) = None"
    by (simp add: priorRecord_def)
  have admitted: "fst (allow (scenario_env 100) ''U'' 0 (limiter (empty_board
         :: (string \<times> nat \<Rightarrow> nat, LeaderboardCache, Subscriber list) system)))"
    by (simp add: windowAllow_def)
  have first: "submitAction (scenario_env 100) (login ''a1'' 0) empty_board
      = (Inr (10, 1), after_first)"
    by (simp add: pipeline_defs)
  have validb: "validAction (maxIncrement (scenario_env 100))
      \<lparr>userId = ''U'', actionId = ''a1'', actionType = ''login'', increment = 5, timestamp = 7\<rparr>"
    by (simp add: validAction_def)
  have admitted2: "fst (allow (scenario_env 100) ''U'' 7 (limiter after_first))"
    by (simp add: windowAllow_def)
  from submitted_twice [of "scenario_env 100" "login ''a1'' 0" empty_board
      "\<lparr>userId = ''U'', actionId = ''a1'', actionType = ''login'', increment = 5, timestamp = 7\<rparr>"
      "[]"]
    valid fresh admitted
  have "fst (submitAction (scenario_env 100)
             \<lparr>userId = ''U'', actionId = ''a1'', actionType = ''login'', increment = 5,
               timestamp = 7\<rparr> after_first) = Inl DuplicateAction"
    using first validb admitted2 by simp
  then show ?thesis
    using valid fresh admitted first by simp
qed

end
